theory Spec2Isabelle
  imports Complex_Main
begin

section \<open>Python values that cross the review boundary\<close>

text \<open>
  A decision is a Python value of type \<open>Union[int, bool, str]\<close>; \<open>None\<close> is kept as a
  value because the mailbox of the processor holds \<open>None\<close> while no decision is queued.
  Strings are ASCII strings.
\<close>

datatype pyval = PNone | PBool bool | PInt int | PStr string

datatype py_error = ValueError | TypeError | ZeroDivisionError | FileNotFoundError
  | JSONDecodeError | ConnectionError

text \<open>The characters that \<open>str.strip\<close> and \<open>str.lstrip\<close> treat as white space (ASCII
  range): tab, line feed, vertical tab, form feed, carriage return, the four separators
  \<open>0x1c\<close> to \<open>0x1f\<close>, and the blank.\<close>

definition py_isspace :: "char \<Rightarrow> bool" where
  "py_isspace c = (let n = (of_char c :: nat) in (9 \<le> n \<and> n \<le> 13) \<or> (28 \<le> n \<and> n \<le> 32))"




text \<open>The characters that \<open>int\<close> skips around the number in an ASCII string: tab,
  line feed, vertical tab, form feed, carriage return and the blank; the separators
  \<open>0x1c\<close> to \<open>0x1f\<close> are not among them.\<close>

definition int_isspace :: "char \<Rightarrow> bool" where
  "int_isspace c = (let n = (of_char c :: nat) in (9 \<le> n \<and> n \<le> 13) \<or> n = 32)"

definition int_strip :: "string \<Rightarrow> string" where
  "int_strip s = rev (dropWhile int_isspace (rev (dropWhile int_isspace s)))"

definition is_digit :: "char \<Rightarrow> bool" where
  "is_digit c = (let n = (of_char c :: nat) in 48 \<le> n \<and> n \<le> 57)"

definition digit_val :: "char \<Rightarrow> int" where
  "digit_val c = int (of_char c) - 48"

definition py_lower_char :: "char \<Rightarrow> char" where
  "py_lower_char c = (let n = (of_char c :: nat) in if 65 \<le> n \<and> n \<le> 90 then char_of (n + 32) else c)"

definition py_lower :: "string \<Rightarrow> string" where
  "py_lower s = map py_lower_char s"

text \<open>
  \<open>int(s)\<close> for a string, base ten: white space is skipped at both ends, one sign is
  allowed, then digits, with single underscores allowed between digits; a number of
  more than 4300 digits (the default limit of the interpreter) is refused. \<open>None\<close>
  stands for the \<open>ValueError\<close> that \<open>int\<close> raises.
\<close>

fun no_double_underscore :: "string \<Rightarrow> bool" where
  "no_double_underscore (a # b # cs) =
     (\<not> (a = CHR ''_'' \<and> b = CHR ''_'') \<and> no_double_underscore (b # cs))"
| "no_double_underscore _ = True"

definition digits_value :: "string \<Rightarrow> int" where
  "digits_value ds = foldl (\<lambda>acc c. 10 * acc + digit_val c) 0 (filter is_digit ds)"

definition py_int_digits :: "string \<Rightarrow> int option" where
  "py_int_digits body =
     (if body \<noteq> [] \<and> is_digit (hd body) \<and> is_digit (last body)
         \<and> list_all (\<lambda>c. is_digit c \<or> c = CHR ''_'') body \<and> no_double_underscore body
         \<and> length (filter is_digit body) \<le> 4300
      then Some (digits_value body) else None)"

definition py_int_of_str :: "string \<Rightarrow> int option" where
  "py_int_of_str s =
     (case int_strip s of
        [] \<Rightarrow> None
      | c # cs \<Rightarrow>
          if c = CHR ''-'' then map_option uminus (py_int_digits cs)
          else if c = CHR ''+'' then py_int_digits cs
          else py_int_digits (c # cs))"

section \<open>The consensus reviewer (\<open>JsonProcessor\<close>)\<close>

subsection \<open>\<open>_normalize_decision\<close>\<close>

text \<open>
  \<open>True\<close> and \<open>False\<close> become 1 and 0; otherwise \<open>int(decision)\<close> is tried, and the
  decision is returned unchanged when \<open>int\<close> raises \<open>TypeError\<close> (for \<open>None\<close>) or
  \<open>ValueError\<close> (for a string that is not a number).
\<close>

fun normalize_decision :: "pyval \<Rightarrow> pyval" where
  "normalize_decision (PBool True) = PInt 1"
| "normalize_decision (PBool False) = PInt 0"
| "normalize_decision (PInt n) = PInt n"
| "normalize_decision (PStr s) = (case py_int_of_str s of Some n \<Rightarrow> PInt n | None \<Rightarrow> PStr s)"
| "normalize_decision PNone = PNone"

subsection \<open>The object under review\<close>

text \<open>
  The fields of the JSON object that the reviewer reads and writes. The key
  \<open>review_stage\<close> may be absent (\<open>None\<close>); when it is present its value is \<open>None\<close>
  (\<open>Some None\<close>) or a stage number. \<open>analysis_label\<close> is the parsed automatic decision
  or \<open>None\<close>.
\<close>

record review_obj =
  relevance_analysis :: string
  analysis_label :: "int option"
  analysis_label_parsed :: bool
  review_stage :: "nat option option"
  review_reason :: "string option"
  relevance_label :: pyval
  user_decision_round1 :: pyval
  user_decision_round2 :: pyval

text \<open>
  \<open>_try_json_extraction\<close>: \<open>json_result_field text\<close> stands for the library part, the
  string stored under the key \<open>result\<close> when \<open>json.loads(text)\<close> is an object that has
  one; every other outcome (decode error, no such key, a value that is not a string)
  ends in one of the \<open>except\<close> branches and gives \<open>None\<close>.
\<close>

definition try_json_extraction :: "(string \<Rightarrow> string option) \<Rightarrow> string \<Rightarrow> int option" where
  "try_json_extraction json_result_field text =
     (case json_result_field text of
        None \<Rightarrow> None
      | Some r \<Rightarrow>
          (let result = py_lower r in
           if result = ''vulnerable'' then Some 1
           else if result = ''not vulnerable'' then Some 0
           else if result = ''not relevant'' then Some (- 1)
           else None))"

definition extract_result :: "(string \<Rightarrow> string option) \<Rightarrow> string \<Rightarrow> int option" where
  "extract_result json_result_field text =
     (if text = [] then None else try_json_extraction json_result_field text)"

definition process_json_object :: "(string \<Rightarrow> string option) \<Rightarrow> review_obj \<Rightarrow> review_obj" where
  "process_json_object json_result_field obj =
     (let result = extract_result json_result_field (relevance_analysis obj) in
      obj\<lparr>analysis_label := result,
          analysis_label_parsed := (result \<noteq> None),
          review_stage := Some (Some 1),
          review_reason := None,
          relevance_label := PNone,
          user_decision_round1 := PNone,
          user_decision_round2 := PNone\<rparr>)"

text \<open>Python's \<open>==\<close> between a decision and the integer label: \<open>True == 1\<close> and
  \<open>False == 0\<close> hold, a string never equals an integer.\<close>

fun py_eq_int :: "pyval \<Rightarrow> int \<Rightarrow> bool" where
  "py_eq_int (PInt m) n = (m = n)"
| "py_eq_int (PBool b) n = ((if b then 1 else 0) = n)"
| "py_eq_int _ n = False"

text \<open>\<open>obj.get("review_stage", 1)\<close>: an absent key reads as stage 1.\<close>

definition get_review_stage :: "review_obj \<Rightarrow> nat option" where
  "get_review_stage obj = (case review_stage obj of None \<Rightarrow> Some 1 | Some stage \<Rightarrow> stage)"

definition apply_user_decision :: "review_obj \<Rightarrow> pyval \<Rightarrow> review_obj" where
  "apply_user_decision obj decision =
     (let decision_value = normalize_decision decision in
      if get_review_stage obj = Some 1 then
        (let obj1 = obj\<lparr>user_decision_round1 := decision_value\<rparr> in
         if analysis_label obj \<noteq> None \<and> py_eq_int decision_value (the (analysis_label obj)) then
           obj1\<lparr>relevance_label := decision_value, review_stage := Some None,
                review_reason := None\<rparr>
         else
           obj1\<lparr>review_stage := Some (Some 2),
                review_reason := Some (if analysis_label obj \<noteq> None then ''mismatch'' else ''unparsed'')\<rparr>)
      else
        obj\<lparr>user_decision_round2 := decision_value, relevance_label := decision_value,
            review_stage := Some None, review_reason := None\<rparr>)"

text \<open>
  The waiting loop of \<open>process_json_files\<close> for one object, \<open>while
  obj.get("relevance_label") is None\<close>. The list is the sequence of values handed to
  \<open>set_user_decision\<close>, in the order the batch thread consumes them; the mailbox holds
  the normalized value, and a \<open>None\<close> in the mailbox makes the loop wait again. When the
  list is used up the thread is blocked.
\<close>

datatype review_outcome = Finalized review_obj "pyval list" | Waiting review_obj

fun review_loop :: "review_obj \<Rightarrow> pyval list \<Rightarrow> review_outcome" where
  "review_loop obj [] = (if relevance_label obj = PNone then Waiting obj else Finalized obj [])"
| "review_loop obj (d # ds) =
     (if relevance_label obj = PNone then
        (let decision_value = normalize_decision d in
         if decision_value = PNone then review_loop obj ds
         else review_loop (apply_user_decision obj decision_value) ds)
      else Finalized obj (d # ds))"

subsection \<open>The web route \<open>submit_decision\<close> and \<open>set_user_decision\<close>\<close>

record json_processor =
  user_decision :: pyval
  processing_paused :: bool

definition set_user_decision :: "json_processor \<Rightarrow> pyval \<Rightarrow> json_processor" where
  "set_user_decision jp decision =
     jp\<lparr>user_decision := normalize_decision decision, processing_paused := True\<rparr>"

text \<open>
  \<open>submit_decision\<close> converts the request's value before it calls
  \<open>set_user_decision\<close>: the strings \<open>true\<close> and \<open>false\<close> (in any case) become the
  booleans, any other string goes through \<open>int\<close>, whose \<open>ValueError\<close> is answered with
  an error and leaves the processor untouched.
\<close>

definition submit_decision :: "json_processor \<Rightarrow> pyval \<Rightarrow> py_error + json_processor" where
  "submit_decision jp decision =
     (case decision of
        PStr s \<Rightarrow>
          if py_lower s = ''true'' then Inr (set_user_decision jp (PBool True))
          else if py_lower s = ''false'' then Inr (set_user_decision jp (PBool False))
          else (case py_int_of_str s of
                  None \<Rightarrow> Inl ValueError
                | Some n \<Rightarrow> Inr (set_user_decision jp (PInt n)))
      | _ \<Rightarrow> Inr (set_user_decision jp decision))"

section \<open>The time estimator (\<open>TimeEstimator\<close>, function-analysis pipeline)\<close>






section \<open>The data handler of the model pipeline\<close>

subsection \<open>Records, the resume file and the file system\<close>

text \<open>
  An input record is a JSON object. Its identity fields may be absent (\<open>None\<close>) or hold
  any JSON scalar; the remaining fields only feed the prompt and are kept as one payload.
\<close>

record entry =
  id_field :: "pyval option"
  sub_id_field :: "pyval option"
  code_id_field :: "pyval option"
  payload :: string

text \<open>\<open>d.get(k)\<close> and \<open>d.get(k, 'Unknown')\<close> on such a field.\<close>

definition get_or_none :: "pyval option \<Rightarrow> pyval" where
  "get_or_none f = (case f of None \<Rightarrow> PNone | Some v \<Rightarrow> v)"

definition get_or_unknown :: "pyval option \<Rightarrow> pyval" where
  "get_or_unknown f = (case f of None \<Rightarrow> PStr ''Unknown'' | Some v \<Rightarrow> v)"

text \<open>Python's \<open>==\<close> on scalars: a boolean equals the integer 1 or 0.\<close>

fun py_eq :: "pyval \<Rightarrow> pyval \<Rightarrow> bool" where
  "py_eq (PBool b) (PInt n) = ((if b then 1 else 0) = n)"
| "py_eq (PInt n) (PBool b) = ((if b then 1 else 0) = n)"
| "py_eq a b = (a = b)"

type_synonym ident_key = "pyval \<times> pyval \<times> pyval"

fun key_eq :: "ident_key \<Rightarrow> ident_key \<Rightarrow> bool" where
  "key_eq (a, b, c) (a', b', c') = (py_eq a a' \<and> py_eq b b' \<and> py_eq c c')"

text \<open>
  A duration in the record written to the result file: the integer that the record
  with the empty response carries, or the float \<open>round(ns / 1e9, 3)\<close> computed from a
  count of nanoseconds. The float is kept as its argument; no rounding is computed.
\<close>

datatype py_seconds = Int_seconds int | Float_seconds_of_ns int

text \<open>The record written to the result file (\<open>new_entry\<close>).\<close>

record out_entry =
  out_id :: pyval
  out_sub_id :: pyval
  out_code_id :: pyval
  response :: string
  total_duration :: py_seconds
  load_duration :: py_seconds
  prompt_eval_count :: int
  prompt_eval_duration :: py_seconds
  eval_count :: int
  eval_duration :: py_seconds

definition out_key :: "out_entry \<Rightarrow> ident_key" where
  "out_key e = (out_id e, out_sub_id e, out_code_id e)"

text \<open>One entry of the failure ledger; \<open>retry_count\<close> may be missing.\<close>

record failed_entry =
  fe_id :: pyval
  fe_sub_id :: pyval
  fe_code_id :: pyval
  fe_error :: "py_error option"
  fe_retry_count :: "int option"

definition fe_key :: "failed_entry \<Rightarrow> ident_key" where
  "fe_key e = (fe_id e, fe_sub_id e, fe_code_id e)"

text \<open>\<open>entry.get('retry_count', 0)\<close>\<close>

definition get_retry_count :: "failed_entry \<Rightarrow> int" where
  "get_retry_count e = (case fe_retry_count e of None \<Rightarrow> 0 | Some n \<Rightarrow> n)"

text \<open>
  The resume file is a JSON object. The keys \<open>last_processed\<close>, \<open>index\<close>, \<open>total\<close> and
  \<open>completed\<close> are missing in the minimal object that \<open>add_failed_entry\<close> creates. The
  keys \<open>timestamp\<close>, \<open>progress_percentage\<close>, \<open>failed_count\<close> and \<open>time_estimates\<close> are
  written and never read back by the functions modelled here; they are left out.
\<close>

record resume_data =
  rd_model_name :: string
  rd_last_processed :: "ident_key option"
  rd_index :: "int option"
  rd_total :: "int option"
  rd_completed :: "bool option"
  rd_failed_entries :: "failed_entry list"

text \<open>
  The files of one model. \<open>result_file\<close> is the text of the result file, \<open>None\<close> when
  it does not exist. \<open>resume_file\<close> is the parsed resume file, \<open>None\<close> when it does not
  exist, is empty or cannot be read. \<open>retry_files\<close> gives the \<open>retry_count\<close> stored in
  the retry file of a record, if that file exists. \<open>llm_calls\<close> counts the calls made
  to the LLM so far.
\<close>

record files =
  result_file :: "string option"
  resume_file :: "resume_data option"
  retry_files :: "ident_key \<Rightarrow> int option"
  llm_calls :: nat

definition fresh_files :: files where
  "fresh_files = \<lparr>result_file = None, resume_file = None, retry_files = (\<lambda>_. None), llm_calls = 0\<rparr>"

subsection \<open>\<open>write_to_json\<close>\<close>

text \<open>
  The byte surgery on the text of the result file. A file that does not exist or is
  empty is created as \<open>[\<close> newline record newline \<open>]\<close>. Otherwise the last character
  must be \<open>]\<close> and the first \<open>[\<close>; the character before the closing bracket decides
  whether a comma is written; the new text replaces the closing bracket, and the file is
  truncated after it.
\<close>

definition write_to_json_text :: "string \<Rightarrow> string option \<Rightarrow> py_error + string" where
  "write_to_json_text entry_json file =
     (if file = None \<or> file = Some [] then
        Inr (''[\<newline>'' @ entry_json @ ''\<newline>]'')
      else
        (let content = the file; position = length content - 1 in
         if content ! position \<noteq> CHR '']'' then Inl ValueError
         else if content ! 0 \<noteq> CHR ''['' then Inl ValueError
         else
           (let char = content ! (position - 1);
                needs_comma = (char \<noteq> CHR ''['') in
            Inr (take position content
                 @ (if needs_comma then '',\<newline>'' else ''\<newline>'')
                 @ entry_json @ ''\<newline>]''))))"

text \<open>\<open>dumps\<close> is \<open>json.dumps(new_entry, indent=4)\<close>. An empty \<open>result_dir\<close> makes
  \<open>os.makedirs\<close> raise.\<close>

definition write_to_json ::
    "('e \<Rightarrow> string) \<Rightarrow> string \<Rightarrow> 'e \<Rightarrow> files \<Rightarrow> py_error + files" where
  "write_to_json dumps result_dir new_entry st =
     (if result_dir = [] then Inl FileNotFoundError
      else case write_to_json_text (dumps new_entry) (result_file st) of
             Inl err \<Rightarrow> Inl err
           | Inr text \<Rightarrow> Inr (st\<lparr>result_file := Some text\<rparr>))"

subsection \<open>\<open>save_resume_point\<close>\<close>

text \<open>A Python dictionary in insertion order: an existing key keeps its place and
  takes the new value, a new key goes to the end.\<close>

fun dict_set :: "ident_key \<Rightarrow> failed_entry \<Rightarrow> (ident_key \<times> failed_entry) list
    \<Rightarrow> (ident_key \<times> failed_entry) list" where
  "dict_set k v [] = [(k, v)]"
| "dict_set k v ((k', v') # kvs) =
     (if key_eq k' k then (k', v) # kvs else (k', v') # dict_set k v kvs)"

fun dict_get :: "ident_key \<Rightarrow> (ident_key \<times> failed_entry) list \<Rightarrow> failed_entry option" where
  "dict_get k [] = None"
| "dict_get k ((k', v') # kvs) = (if key_eq k' k then Some v' else dict_get k kvs)"

definition unique_entries_of :: "failed_entry list \<Rightarrow> (ident_key \<times> failed_entry) list" where
  "unique_entries_of existing = foldl (\<lambda>d e. dict_set (fe_key e) e d) [] existing"

definition merge_failed_entry ::
    "(ident_key \<times> failed_entry) list \<Rightarrow> failed_entry \<Rightarrow> (ident_key \<times> failed_entry) list" where
  "merge_failed_entry unique_entries failed =
     (case dict_get (fe_key failed) unique_entries of
        Some existing_entry \<Rightarrow>
          dict_set (fe_key failed)
            (existing_entry\<lparr>fe_retry_count := Some (get_retry_count existing_entry + 1)\<rparr>)
            unique_entries
      | None \<Rightarrow> dict_set (fe_key failed) (failed\<lparr>fe_retry_count := Some 1\<rparr>) unique_entries)"

definition entry_get_key :: "entry \<Rightarrow> ident_key" where
  "entry_get_key e =
     (get_or_none (id_field e), get_or_none (sub_id_field e), get_or_none (code_id_field e))"

definition entry_ident :: "entry \<Rightarrow> ident_key" where
  "entry_ident e =
     (get_or_unknown (id_field e), get_or_unknown (sub_id_field e),
      get_or_unknown (code_id_field e))"

text \<open>
  \<open>save_resume_point\<close>. The failed entries already in the file are kept; new ones are
  merged in. \<open>round((index / total) * 100, 2)\<close> is evaluated before the file is
  written and raises \<open>ZeroDivisionError\<close> when \<open>total\<close> is 0. Writing the file itself
  is taken to succeed.
\<close>

definition save_resume_point ::
    "string \<Rightarrow> entry \<Rightarrow> int \<Rightarrow> int \<Rightarrow> failed_entry list \<Rightarrow> files \<Rightarrow> py_error + files" where
  "save_resume_point model_name e index total_n failed_entries st =
     (let existing_failed_entries =
            (case resume_file st of None \<Rightarrow> [] | Some existing_data \<Rightarrow> rd_failed_entries existing_data);
          merged =
            (if failed_entries \<noteq> [] then
               map snd (foldl merge_failed_entry (unique_entries_of existing_failed_entries)
                          failed_entries)
             else existing_failed_entries)
      in if total_n = 0 then Inl ZeroDivisionError
         else Inr (st\<lparr>resume_file := Some
                \<lparr>rd_model_name = model_name,
                 rd_last_processed = Some (entry_get_key e),
                 rd_index = Some index,
                 rd_total = Some total_n,
                 rd_completed = Some (index \<ge> total_n),
                 rd_failed_entries = merged\<rparr>\<rparr>))"

subsection \<open>\<open>is_model_completed\<close> and \<open>find_resume_point\<close>\<close>

record status_info =
  si_completed :: bool
  failed_entries_count :: nat
  max_retries_reached :: nat
  retryable_entries :: nat

text \<open>
  \<open>is_model_completed\<close>, with its fixed \<open>max_retries = 3\<close>. An empty \<open>log_dir\<close> stands
  for a \<open>log_dir\<close> that is \<open>None\<close> or empty.
\<close>

definition is_model_completed :: "string \<Rightarrow> files \<Rightarrow> bool \<times> status_info" where
  "is_model_completed log_dir st =
     (let status0 = \<lparr>si_completed = False, failed_entries_count = 0,
                       max_retries_reached = 0, retryable_entries = 0\<rparr> in
      if log_dir = [] then (False, status0)
      else case resume_file st of
        None \<Rightarrow> (False, status0)
      | Some resume_data \<Rightarrow>
          (let completed = (case rd_completed resume_data of None \<Rightarrow> False | Some b \<Rightarrow> b);
               failed = rd_failed_entries resume_data;
               max_retries = 3;
               reached = length (filter (\<lambda>e. get_retry_count e \<ge> max_retries) failed);
               retryable = length (filter (\<lambda>e. \<not> get_retry_count e \<ge> max_retries) failed);
               status = \<lparr>si_completed = completed, failed_entries_count = length failed,
                         max_retries_reached = reached, retryable_entries = retryable\<rparr>
           in if completed \<and> retryable = 0 then (True, status)
              else if retryable > 0 then (False, status)
              else if completed then (True, status)
              else (False, status)))"

text \<open>
  \<open>find_resume_point\<close> returns the stored index when it lies between 0 and the number
  of records. Otherwise a result file that exists and is not empty is overwritten with
  the text \<open>[\<close> newline \<open>]\<close>, and 0 is returned.
\<close>

definition find_resume_point :: "string \<Rightarrow> string \<Rightarrow> entry list \<Rightarrow> files \<Rightarrow> int \<times> files" where
  "find_resume_point log_dir result_dir ori_json_data st =
     (let stored =
            (if log_dir = [] then None
             else case resume_file st of
                    None \<Rightarrow> None
                  | Some resume_data \<Rightarrow>
                      (case rd_index resume_data of
                         None \<Rightarrow> None
                       | Some index \<Rightarrow>
                           if 0 \<le> index \<and> index \<le> int (length ori_json_data) then Some index
                           else None))
      in case stored of
           Some index \<Rightarrow> (index, st)
         | None \<Rightarrow>
             (if result_dir \<noteq> [] \<and> result_file st \<noteq> None \<and> result_file st \<noteq> Some []
              then (0, st\<lparr>result_file := Some ''[\<newline>]''\<rparr>)
              else (0, st)))"

subsection \<open>\<open>add_failed_entry\<close>\<close>

fun bump_failed :: "ident_key \<Rightarrow> py_error \<Rightarrow> failed_entry list \<Rightarrow> failed_entry list option" where
  "bump_failed k err [] = None"
| "bump_failed k err (existing # rest) =
     (if key_eq (fe_key existing) k then
        Some (existing\<lparr>fe_retry_count := Some (get_retry_count existing + 1), fe_error := Some err\<rparr>
              # rest)
      else map_option ((#) existing) (bump_failed k err rest))"

text \<open>
  \<open>add_failed_entry\<close>. With no resume file a minimal object is created whose single
  failed entry has no \<open>retry_count\<close>. Otherwise the first ledger entry with the same key
  has its \<open>retry_count\<close> raised by one, or a new entry with \<open>retry_count\<close> 1 is appended.
\<close>

definition add_failed_entry :: "string \<Rightarrow> entry \<Rightarrow> py_error \<Rightarrow> files \<Rightarrow> files" where
  "add_failed_entry model_name e error_message st =
     (let k = entry_get_key e;
          failed = \<lparr>fe_id = fst k, fe_sub_id = fst (snd k), fe_code_id = snd (snd k),
                    fe_error = Some error_message, fe_retry_count = None\<rparr>
      in case resume_file st of
           None \<Rightarrow>
             st\<lparr>resume_file := Some
                  \<lparr>rd_model_name = model_name, rd_last_processed = None, rd_index = None,
                   rd_total = None, rd_completed = None, rd_failed_entries = [failed]\<rparr>\<rparr>
         | Some resume_data \<Rightarrow>
             (let failed_entries =
                    (case bump_failed k error_message (rd_failed_entries resume_data) of
                       Some updated \<Rightarrow> updated
                     | None \<Rightarrow> rd_failed_entries resume_data @ [failed\<lparr>fe_retry_count := Some 1\<rparr>])
              in st\<lparr>resume_file := Some (resume_data\<lparr>rd_failed_entries := failed_entries\<rparr>)\<rparr>))"

definition get_failed_entries :: "files \<Rightarrow> failed_entry list" where
  "get_failed_entries st =
     (case resume_file st of None \<Rightarrow> [] | Some resume_data \<Rightarrow> rd_failed_entries resume_data)"

section \<open>Reading a JSON array\<close>

subsection \<open>The element decoder\<close>

text \<open>
  \<open>json.JSONDecoder().raw_decode(s)\<close> decodes one JSON value at the start of \<open>s\<close> and
  returns it with the index where it ends, or raises \<open>JSONDecodeError\<close>. It belongs to
  the Python library and is a parameter of the model. The reader tells the message
  \<open>Expecting value\<close> from every other message.
\<close>

datatype decode_error = Expecting_value | Other_decode_error

type_synonym 'v decoder = "string \<Rightarrow> decode_error + ('v \<times> nat)"

text \<open>
  A decoder for the fragment of JSON made of unsigned integer literals (\<open>0\<close>, or a
  non-zero digit followed by digits), used to run the readers on concrete files.
\<close>

definition int_literal_decoder :: "int decoder" where
  "int_literal_decoder s =
     (case s of
        [] \<Rightarrow> Inl Expecting_value
      | c # cs \<Rightarrow>
          if c = CHR ''0'' then Inr (0, 1)
          else if is_digit c then
            (let ds = c # takeWhile is_digit cs in Inr (digits_value ds, length ds))
          else Inl Expecting_value)"

subsection \<open>\<open>stream_json_data\<close> and \<open>load_json_data\<close>\<close>


definition starts_with :: "char \<Rightarrow> string \<Rightarrow> bool" where
  "starts_with c s = (case s of [] \<Rightarrow> False | x # _ \<Rightarrow> x = c)"







subsection \<open>The full-file parse, for comparison\<close>

text \<open>
  \<open>json.load\<close> on a file whose value is an array, as the library's array parser works:
  white space (blank, tab, line feed, carriage return) is skipped, the array opens
  with \<open>[\<close>, an empty array closes at once, otherwise values are decoded one by one,
  each followed by a comma or by the closing bracket, and only white space may follow
  the array. The elements are decoded by the same element decoder.
\<close>

definition json_ws :: "char \<Rightarrow> bool" where
  "json_ws c = (c = CHR '' '' \<or> c = CHR 0x09 \<or> c = CHR ''\<newline>'' \<or> c = CHR 0x0D)"

definition skip_ws :: "string \<Rightarrow> string" where
  "skip_ws s = dropWhile json_ws s"

function json_array_items :: "'v decoder \<Rightarrow> string \<Rightarrow> py_error + ('v list \<times> string)" where
  "json_array_items raw_decode s =
     (case raw_decode s of
        Inl e \<Rightarrow> Inl JSONDecodeError
      | Inr (v, n) \<Rightarrow>
          (case skip_ws (drop n s) of
             [] \<Rightarrow> Inl JSONDecodeError
           | c # rest \<Rightarrow>
               if c = CHR '']'' then Inr ([v], rest)
               else if c = CHR '','' then
                 (case json_array_items raw_decode (skip_ws rest) of
                    Inl e \<Rightarrow> Inl e
                  | Inr (vs, rest') \<Rightarrow> Inr (v # vs, rest'))
               else Inl JSONDecodeError))"
  by pat_completeness auto
termination
proof (relation "measure (\<lambda>(raw_decode, s). length s)", goal_cases)
  case 1
  show ?case by simp
next
  case (2 raw_decode s x v n c rest)
  have "length (skip_ws rest) \<le> length rest"
    unfolding skip_ws_def by (rule length_dropWhile_le)
  also have "length rest < length (skip_ws (drop n s))"
    using 2 by simp
  also have "\<dots> \<le> length (drop n s)"
    unfolding skip_ws_def by (rule length_dropWhile_le)
  also have "\<dots> \<le> length s"
    by simp
  finally show ?case by simp
qed

declare json_array_items.simps [simp del]

definition json_load_array :: "'v decoder \<Rightarrow> string \<Rightarrow> py_error + 'v list" where
  "json_load_array raw_decode text =
     (case skip_ws text of
        [] \<Rightarrow> Inl JSONDecodeError
      | c # s \<Rightarrow>
          if c \<noteq> CHR ''['' then Inl JSONDecodeError
          else
            (let s1 = skip_ws s in
             if starts_with (CHR '']'') s1 then
               (if skip_ws (tl s1) = [] then Inr [] else Inl JSONDecodeError)
             else case json_array_items raw_decode s1 of
                    Inl e \<Rightarrow> Inl e
                  | Inr (vs, rest) \<Rightarrow>
                      if skip_ws rest = [] then Inr vs else Inl JSONDecodeError))"

text \<open>The text of an array as the writer lays it out: every element on lines of its
  own, and a comma on a line of its own between two elements.\<close>

fun array_text :: "string list \<Rightarrow> string" where
  "array_text [] = ''[\<newline>]''"
| "array_text (x # xs) =
     ''[\<newline>'' @ x @ concat (map (\<lambda>y. ''\<newline>,\<newline>'' @ y) xs) @ ''\<newline>]''"

section \<open>The batch driver (\<open>LLMVulProcessor\<close>)\<close>

text \<open>
  The response of the LLM call; the numeric fields may be missing. The call is the
  parameter \<open>llm\<close>: its first argument is the number of calls made before, so that
  each call may succeed or fail on its own, and the record stands for the prompt built
  from it.
\<close>

record llm_response =
  message_content :: string
  r_total_duration :: "int option"
  r_load_duration :: "int option"
  r_prompt_eval_count :: "int option"
  r_prompt_eval_duration :: "int option"
  r_eval_count :: "int option"
  r_eval_duration :: "int option"

type_synonym llm_call = "nat \<Rightarrow> entry \<Rightarrow> py_error + llm_response"

record config =
  max_retries_cfg :: int
  log_dir_cfg :: string
  result_dir_cfg :: string
  model_name_cfg :: string

text \<open>\<open>round(ns / 1e9, 3)\<close>, a float.\<close>

definition ns_to_seconds :: "int \<Rightarrow> py_seconds" where
  "ns_to_seconds ns = Float_seconds_of_ns ns"

definition get_or_zero :: "int option \<Rightarrow> int" where
  "get_or_zero f = (case f of None \<Rightarrow> 0 | Some n \<Rightarrow> n)"

text \<open>The record with an empty response that stands for a record given up.\<close>

definition empty_response_entry :: "entry \<Rightarrow> out_entry" where
  "empty_response_entry e =
     \<lparr>out_id = get_or_unknown (id_field e),
      out_sub_id = get_or_unknown (sub_id_field e),
      out_code_id = get_or_unknown (code_id_field e),
      response = [],
      total_duration = Int_seconds 0, load_duration = Int_seconds 0, prompt_eval_count = 0,
      prompt_eval_duration = Int_seconds 0, eval_count = 0, eval_duration = Int_seconds 0\<rparr>"

text \<open>
  \<open>interact_with_llm\<close>. When the retry file of the record exists and holds a
  \<open>retry_count\<close> of at least \<open>max_retries\<close>, the empty response is returned without a
  call. Otherwise the LLM is called, and its exception is raised again.
\<close>

definition interact_with_llm ::
    "llm_call \<Rightarrow> config \<Rightarrow> entry \<Rightarrow> files \<Rightarrow> files \<times> (py_error + out_entry)" where
  "interact_with_llm llm cfg e st =
     (let limit_reached =
            (log_dir_cfg cfg \<noteq> [] \<and>
             (case retry_files st (entry_ident e) of
                None \<Rightarrow> False
              | Some retry_count \<Rightarrow> retry_count \<ge> max_retries_cfg cfg))
      in if limit_reached then (st, Inr (empty_response_entry e))
         else
           (st\<lparr>llm_calls := llm_calls st + 1\<rparr>,
            case llm (llm_calls st) e of
              Inl err \<Rightarrow> Inl err
            | Inr r \<Rightarrow>
                Inr \<lparr>out_id = get_or_unknown (id_field e),
                     out_sub_id = get_or_unknown (sub_id_field e),
                     out_code_id = get_or_unknown (code_id_field e),
                     response = message_content r,
                     total_duration = ns_to_seconds (get_or_zero (r_total_duration r)),
                     load_duration = ns_to_seconds (get_or_zero (r_load_duration r)),
                     prompt_eval_count = get_or_zero (r_prompt_eval_count r),
                     prompt_eval_duration = ns_to_seconds (get_or_zero (r_prompt_eval_duration r)),
                     eval_count = get_or_zero (r_eval_count r),
                     eval_duration = ns_to_seconds (get_or_zero (r_eval_duration r))\<rparr>))"

text \<open>
  \<open>_process_entry_attempt\<close>: the call, the append to the result file, the resume point
  at \<open>idx + 1\<close>. The result \<open>None\<close> is the normal return; \<open>Some err\<close> is an exception,
  raised with the files as they are at that moment. The time estimator and the error
  file do not influence the files modelled here.
\<close>

definition process_entry_attempt ::
    "llm_call \<Rightarrow> (out_entry \<Rightarrow> string) \<Rightarrow> config \<Rightarrow> entry \<Rightarrow> int \<Rightarrow> int \<Rightarrow> files
      \<Rightarrow> files \<times> py_error option" where
  "process_entry_attempt llm dumps cfg e idx total_entries st =
     (case interact_with_llm llm cfg e st of
        (st1, Inl err) \<Rightarrow> (st1, Some err)
      | (st1, Inr new_entry) \<Rightarrow>
          (case write_to_json dumps (result_dir_cfg cfg) new_entry st1 of
             Inl err \<Rightarrow> (st1, Some err)
           | Inr st2 \<Rightarrow>
               (case save_resume_point (model_name_cfg cfg) e (idx + 1) total_entries [] st2 of
                  Inl err \<Rightarrow> (st2, Some err)
                | Inr st3 \<Rightarrow> (st3, None))))"

text \<open>
  \<open>_handle_entry_error\<close>: the failure goes to the ledger, and at \<open>retry_count >=
  max_retries\<close> the empty response is appended to the result file. An exception of that
  append leaves the function.
\<close>

definition handle_entry_error ::
    "(out_entry \<Rightarrow> string) \<Rightarrow> config \<Rightarrow> entry \<Rightarrow> py_error \<Rightarrow> int \<Rightarrow> files
      \<Rightarrow> py_error + files" where
  "handle_entry_error dumps cfg e error_msg retry_count st =
     (let st1 = add_failed_entry (model_name_cfg cfg) e error_msg st in
      if retry_count \<ge> max_retries_cfg cfg then
        write_to_json dumps (result_dir_cfg cfg) (empty_response_entry e) st1
      else Inr st1)"

text \<open>
  \<open>_process_entry\<close>: \<open>while retry_count <= max_retries and not success\<close>. The loop is
  entered with \<open>retry_count\<close> and with \<open>success\<close> false.
\<close>

function process_entry_loop ::
    "llm_call \<Rightarrow> (out_entry \<Rightarrow> string) \<Rightarrow> config \<Rightarrow> entry \<Rightarrow> int \<Rightarrow> int \<Rightarrow> int \<Rightarrow> files
      \<Rightarrow> py_error + (files \<times> bool)" where
  "process_entry_loop llm dumps cfg e idx total_entries retry_count st =
     (if retry_count \<le> max_retries_cfg cfg then
        (case process_entry_attempt llm dumps cfg e idx total_entries st of
           (st1, None) \<Rightarrow> Inr (st1, True)
         | (st1, Some error_msg) \<Rightarrow>
             (case handle_entry_error dumps cfg e error_msg (retry_count + 1) st1 of
                Inl err \<Rightarrow> Inl err
              | Inr st2 \<Rightarrow>
                  if retry_count + 1 \<ge> max_retries_cfg cfg then Inr (st2, True)
                  else process_entry_loop llm dumps cfg e idx total_entries (retry_count + 1) st2))
      else Inr (st, False))"
  by pat_completeness auto
termination
  by (relation "measure (\<lambda>(llm, dumps, cfg, e, idx, total_entries, retry_count, st).
                  nat (max_retries_cfg cfg + 1 - retry_count))") auto

declare process_entry_loop.simps [simp del]

definition process_entry ::
    "llm_call \<Rightarrow> (out_entry \<Rightarrow> string) \<Rightarrow> config \<Rightarrow> entry \<Rightarrow> int \<Rightarrow> int \<Rightarrow> files
      \<Rightarrow> py_error + (files \<times> bool)" where
  "process_entry llm dumps cfg e idx total_entries st =
     process_entry_loop llm dumps cfg e idx total_entries 0 st"

text \<open>
  The loop \<open>for idx, entry in enumerate(stream_json_data(dataset_path))\<close> of
  \<open>process_model_streaming\<close>. The stream reads the file that \<open>load_data\<close> has read into
  \<open>self.data\<close>, so it yields the records of \<open>self.data\<close>. An exception that leaves
  \<open>_process_entry\<close> ends the loop and the run.
\<close>

fun process_entries ::
    "llm_call \<Rightarrow> (out_entry \<Rightarrow> string) \<Rightarrow> config \<Rightarrow> int \<Rightarrow> int \<Rightarrow> (nat \<times> entry) list \<Rightarrow> files
      \<Rightarrow> py_error + files" where
  "process_entries llm dumps cfg total_entries start_idx [] st = Inr st"
| "process_entries llm dumps cfg total_entries start_idx ((idx, e) # rest) st =
     (if int idx < start_idx then process_entries llm dumps cfg total_entries start_idx rest st
      else case process_entry llm dumps cfg e (int idx) total_entries st of
             Inl err \<Rightarrow> Inl err
           | Inr (st', success) \<Rightarrow>
               process_entries llm dumps cfg total_entries start_idx rest st')"

text \<open>
  \<open>process_model_streaming\<close>: a completed model is skipped; otherwise the records from
  the resume index on are processed, and the completion status is reported. The
  argument \<open>limit\<close> is not part of the source: it is the number of records the loop
  gets through before the process is killed, and a run that is not killed has
  \<open>limit = length data\<close>.
\<close>

definition process_model_streaming_upto ::
    "nat \<Rightarrow> llm_call \<Rightarrow> (out_entry \<Rightarrow> string) \<Rightarrow> config \<Rightarrow> entry list \<Rightarrow> files
      \<Rightarrow> py_error + (files \<times> bool)" where
  "process_model_streaming_upto limit llm dumps cfg data st =
     (let log_dir = log_dir_cfg cfg;
          total_entries = int (length data)
      in if fst (is_model_completed log_dir st) then Inr (st, True)
         else
           (case find_resume_point log_dir (result_dir_cfg cfg) data st of
              (start_idx, st1) \<Rightarrow>
                (case process_entries llm dumps cfg total_entries start_idx
                        (take limit (enumerate 0 data)) st1 of
                   Inl err \<Rightarrow> Inl err
                 | Inr st2 \<Rightarrow> Inr (st2, fst (is_model_completed log_dir st2)))))"

definition process_model_streaming ::
    "llm_call \<Rightarrow> (out_entry \<Rightarrow> string) \<Rightarrow> config \<Rightarrow> entry list \<Rightarrow> files
      \<Rightarrow> py_error + (files \<times> bool)" where
  "process_model_streaming llm dumps cfg data st =
     process_model_streaming_upto (length data) llm dumps cfg data st"

section \<open>Notions used to state the properties\<close>

text \<open>A sequence of calls of \<open>write_to_json\<close>, stopping at the first exception.\<close>

fun write_all :: "('e \<Rightarrow> string) \<Rightarrow> string \<Rightarrow> 'e list \<Rightarrow> files \<Rightarrow> py_error + files" where
  "write_all dumps result_dir [] st = Inr st"
| "write_all dumps result_dir (e # es) st =
     (case write_to_json dumps result_dir e st of
        Inl err \<Rightarrow> Inl err
      | Inr st' \<Rightarrow> write_all dumps result_dir es st')"

text \<open>
  The result file holds the element texts \<open>xs\<close>: it does not exist or is empty when
  there is none, and it is their array text otherwise.
\<close>

definition file_holds :: "string list \<Rightarrow> string option \<Rightarrow> bool" where
  "file_holds xs file =
     (if xs = [] then file = None \<or> file = Some [] else file = Some (array_text xs))"

text \<open>
  What the library guarantees about an element \<open>v\<close> and its text \<open>dumps v\<close>: the text
  starts with a character of a JSON value, and the decoder reads one value back from
  it, knowing where it ends, whatever follows the line feed behind it.
\<close>

definition decodes_dumped :: "('v \<Rightarrow> string) \<Rightarrow> 'v decoder \<Rightarrow> 'v \<Rightarrow> bool" where
  "decodes_dumped dumps raw_decode v =
     (dumps v \<noteq> [] \<and> \<not> json_ws (hd (dumps v)) \<and> hd (dumps v) \<noteq> CHR '']'' \<and>
      (\<forall>rest. raw_decode (dumps v @ CHR ''\<newline>'' # rest) = Inr (v, length (dumps v))))"

text \<open>
  What the library guarantees about the decoder itself: a text that starts with the
  closing bracket has no value (\<open>Expecting value\<close>), and neither has the empty text or a
  text that starts with white space or with a comma.
\<close>

definition json_value_decoder :: "'v decoder \<Rightarrow> bool" where
  "json_value_decoder raw_decode =
     ((\<forall>s. raw_decode (CHR '']'' # s) = Inl Expecting_value) \<and>
      (\<forall>s v n. raw_decode s = Inr (v, n) \<longrightarrow>
         s \<noteq> [] \<and> \<not> py_isspace (hd s) \<and> hd s \<noteq> CHR '',''))"

text \<open>
  The resume file is consistent with a job of \<open>total_n\<close> records: when it holds an
  index, it holds the completed flag that belongs to this index.
\<close>

definition resume_consistent :: "int \<Rightarrow> files \<Rightarrow> bool" where
  "resume_consistent total_n st =
     (case resume_file st of
        None \<Rightarrow> True
      | Some rd \<Rightarrow>
          (case rd_index rd of
             None \<Rightarrow> rd_completed rd = None
           | Some i \<Rightarrow> rd_completed rd = Some (i \<ge> total_n)))"

section \<open>Concrete inputs\<close>

text \<open>An object as it is read from an input file, before review.\<close>

definition example_obj :: review_obj where
  "example_obj =
     \<lparr>relevance_analysis = ''{}'', analysis_label = None, analysis_label_parsed = False,
      review_stage = None, review_reason = None, relevance_label = PNone,
      user_decision_round1 = PNone, user_decision_round2 = PNone\<rparr>"


text \<open>The texts of two integers, as \<open>json.dumps\<close> writes them.\<close>

definition example_dumps :: "int \<Rightarrow> string" where
  "example_dumps n = (if n = 7 then ''7'' else ''42'')"


text \<open>Records of a dataset.\<close>

definition example_entry :: "int \<Rightarrow> entry" where
  "example_entry i =
     \<lparr>id_field = Some (PInt i), sub_id_field = Some (PInt 0), code_id_field = Some (PInt 0),
      payload = []\<rparr>"

text \<open>A configuration with the default \<open>max_retries\<close>, the same with \<open>--max-retries 2\<close>,
  a response of the LLM, and an LLM that fails on every call for the record with id 1
  and answers every other.\<close>

definition example_cfg :: config where
  "example_cfg =
     \<lparr>max_retries_cfg = 3, log_dir_cfg = ''logs'', result_dir_cfg = ''results'',
      model_name_cfg = ''m''\<rparr>"

definition example_response :: llm_response where
  "example_response =
     \<lparr>message_content = ''ok'', r_total_duration = None, r_load_duration = None,
      r_prompt_eval_count = None, r_prompt_eval_duration = None, r_eval_count = None,
      r_eval_duration = None\<rparr>"

definition example_cfg_two_retries :: config where
  "example_cfg_two_retries = example_cfg\<lparr>max_retries_cfg := 2\<rparr>"

definition fails_on_one :: llm_call where
  "fails_on_one n e =
     (if id_field e = Some (PInt 1) then Inl ConnectionError else Inr example_response)"

definition always_answers :: llm_call where
  "always_answers n e = Inr example_response"

text \<open>A stand-in for \<open>json.dumps\<close> on result records, enough to tell them apart: the
  id of the record and whether its response is empty, as a JSON array of two numbers.\<close>

definition example_out_dumps :: "out_entry \<Rightarrow> string" where
  "example_out_dumps e =
     ''['' @ (if out_id e = PInt 0 then ''0'' else if out_id e = PInt 1 then ''1'' else ''2'')
       @ '','' @ (if response e = [] then ''0'' else ''1'') @ '']''"

text \<open>The result records of that LLM: the answer for a record, and a dataset.\<close>

definition example_answer :: "int \<Rightarrow> out_entry" where
  "example_answer i =
     \<lparr>out_id = PInt i, out_sub_id = PInt 0, out_code_id = PInt 0, response = ''ok'',
      total_duration = Float_seconds_of_ns 0, load_duration = Float_seconds_of_ns 0,
      prompt_eval_count = 0, prompt_eval_duration = Float_seconds_of_ns 0, eval_count = 0,
      eval_duration = Float_seconds_of_ns 0\<rparr>"

definition example_data :: "entry list" where
  "example_data = [example_entry 0, example_entry 1, example_entry 2]"

section \<open>Properties of the consensus reviewer\<close>

lemma normalize_decision_idem:
  "normalize_decision (normalize_decision d) = normalize_decision d"
  by (cases d rule: normalize_decision.cases) (auto split: option.splits)

lemma normalize_decision_PNone:
  "normalize_decision d = PNone \<longleftrightarrow> d = PNone"
  by (cases d rule: normalize_decision.cases) (auto split: option.splits)

lemma py_int_of_str_true: "py_int_of_str ''true'' = None"
  by (simp add: py_int_of_str_def int_strip_def int_isspace_def py_int_digits_def is_digit_def)

lemma py_int_of_str_false: "py_int_of_str ''false'' = None"
  by (simp add: py_int_of_str_def int_strip_def int_isspace_def py_int_digits_def is_digit_def)

text \<open>
  C2 (consensus resolution). A record enters review through \<open>_process_json_object\<close>
  and then receives two human decisions \<open>d1\<close> and \<open>d2\<close> (neither is \<open>None\<close>; further
  decisions may be queued behind them). The review ends with a final label. When the
  automatic decision is not null and equals the first decision, the label is the first
  decision and the second one is left unused. Otherwise (the automatic decision is
  null or differs) the record goes to stage 2 and the label is the second decision,
  whatever the automatic decision is. Decisions are compared and stored in the
  normalized form of \<open>_normalize_decision\<close>.
\<close>

theorem consensus_resolution:
  assumes d1: "d1 \<noteq> PNone" and d2: "d2 \<noteq> PNone"
    and obj0: "obj0 = process_json_object json_result_field obj"
  shows "\<exists>final remaining.
      review_loop obj0 (d1 # d2 # rest) = Finalized final remaining \<and>
      (if analysis_label obj0 \<noteq> None
          \<and> py_eq_int (normalize_decision d1) (the (analysis_label obj0))
       then relevance_label final = normalize_decision d1 \<and> remaining = d2 # rest
       else relevance_label final = normalize_decision d2 \<and> remaining = rest
            \<and> user_decision_round1 final = normalize_decision d1
            \<and> apply_user_decision obj0 d1 = obj0\<lparr>user_decision_round1 := normalize_decision d1,
                 review_stage := Some (Some 2),
                 review_reason := Some (if analysis_label obj0 \<noteq> None then ''mismatch''
                                        else ''unparsed'')\<rparr>)"
  using d1 d2 unfolding obj0
  by (cases rest)
    (auto simp: process_json_object_def apply_user_decision_def get_review_stage_def
      normalize_decision_idem normalize_decision_PNone Let_def)

theorem consensus_resolution_witness:
  "PInt 0 \<noteq> PNone \<and> PInt 1 \<noteq> PNone \<and>
   (\<exists>final remaining.
      review_loop (process_json_object (\<lambda>_. None) example_obj) [PInt 0, PInt 1]
        = Finalized final remaining \<and>
      relevance_label final = PInt 1 \<and> remaining = []) \<and>
   (\<exists>final remaining.
      review_loop (process_json_object (\<lambda>_. Some ''Vulnerable'') example_obj) [PInt 1, PInt 0]
        = Finalized final remaining \<and>
      relevance_label final = PInt 1 \<and> remaining = [PInt 0])"
proof -
  have a: "analysis_label (process_json_object (\<lambda>_. None) example_obj) = None"
    by (simp add: process_json_object_def extract_result_def try_json_extraction_def
        example_obj_def)
  have b: "analysis_label (process_json_object (\<lambda>_. Some ''Vulnerable'') example_obj) = Some 1"
    by code_simp
  have n: "PInt 0 \<noteq> PNone" "PInt 1 \<noteq> PNone" by simp_all
  from consensus_resolution [OF n refl, of "\<lambda>_. None" example_obj "[]"] a
  have first: "\<exists>final remaining.
      review_loop (process_json_object (\<lambda>_. None) example_obj) [PInt 0, PInt 1]
        = Finalized final remaining \<and>
      relevance_label final = PInt 1 \<and> remaining = []"
    by (auto simp del: review_loop.simps)
  from consensus_resolution [OF n(2) n(1) refl, of "\<lambda>_. Some ''Vulnerable''" example_obj "[]"] b
  have second: "\<exists>final remaining.
      review_loop (process_json_object (\<lambda>_. Some ''Vulnerable'') example_obj) [PInt 1, PInt 0]
        = Finalized final remaining \<and>
      relevance_label final = PInt 1 \<and> remaining = [PInt 0]"
    by (auto simp del: review_loop.simps)
  from n first second show ?thesis by blast
qed

text \<open>
  C8 (decision normalization). The decision values that the boundary, the web route
  \<open>submit_decision\<close>, accepts are stored by \<open>set_user_decision\<close> in the canonical
  integer encoding: \<open>True\<close> and the string \<open>true\<close> (in any case) as 1, \<open>False\<close> and
  the string \<open>false\<close> as 0, an integer as itself, and a string that \<open>int\<close> accepts as
  its integer value. Every other string is refused with an error, and nothing is
  stored. Whatever the route accepts is stored as an integer, and the normalization
  that \<open>_apply_user_decision\<close> applies before it compares and stores leaves that
  integer as it is.
\<close>

theorem decision_normalization:
  "submit_decision jp (PBool True)
     = Inr (jp\<lparr>user_decision := PInt 1, processing_paused := True\<rparr>) \<and>
   submit_decision jp (PBool False)
     = Inr (jp\<lparr>user_decision := PInt 0, processing_paused := True\<rparr>) \<and>
   submit_decision jp (PInt n)
     = Inr (jp\<lparr>user_decision := PInt n, processing_paused := True\<rparr>) \<and>
   (py_lower s_true = ''true'' \<longrightarrow>
      submit_decision jp (PStr s_true)
        = Inr (jp\<lparr>user_decision := PInt 1, processing_paused := True\<rparr>)) \<and>
   (py_lower s_false = ''false'' \<longrightarrow>
      submit_decision jp (PStr s_false)
        = Inr (jp\<lparr>user_decision := PInt 0, processing_paused := True\<rparr>)) \<and>
   (py_lower s_num \<noteq> ''true'' \<and> py_lower s_num \<noteq> ''false'' \<and> py_int_of_str s_num = Some k \<longrightarrow>
      submit_decision jp (PStr s_num)
        = Inr (jp\<lparr>user_decision := PInt k, processing_paused := True\<rparr>)) \<and>
   (py_lower s_bad \<noteq> ''true'' \<and> py_lower s_bad \<noteq> ''false'' \<and> py_int_of_str s_bad = None \<longrightarrow>
      submit_decision jp (PStr s_bad) = Inl ValueError) \<and>
   (d \<noteq> PNone \<and> submit_decision jp d = Inr jp' \<longrightarrow>
      (\<exists>m. user_decision jp' = PInt m \<and> normalize_decision (user_decision jp') = PInt m))"
proof -
  have accepted: "\<exists>m. user_decision jp' = PInt m \<and> normalize_decision (user_decision jp') = PInt m"
    if "d \<noteq> PNone" and "submit_decision jp d = Inr jp'"
  proof (cases d)
    case PNone
    with that show ?thesis by simp
  next
    case (PBool b)
    with that show ?thesis
      by (cases b) (auto simp: submit_decision_def set_user_decision_def)
  next
    case (PInt i)
    with that show ?thesis
      by (auto simp: submit_decision_def set_user_decision_def)
  next
    case (PStr s)
    with that show ?thesis
      by (auto simp: submit_decision_def set_user_decision_def split: if_splits option.splits)
  qed
  show ?thesis
    using accepted
    by (simp add: submit_decision_def set_user_decision_def)
qed

theorem decision_normalization_witness:
  "py_lower ''True'' = ''true'' \<and>
   submit_decision \<lparr>user_decision = PNone, processing_paused = False\<rparr> (PStr ''True'')
     = Inr \<lparr>user_decision = PInt 1, processing_paused = True\<rparr> \<and>
   py_lower ''FALSE'' = ''false'' \<and>
   submit_decision \<lparr>user_decision = PNone, processing_paused = False\<rparr> (PStr ''FALSE'')
     = Inr \<lparr>user_decision = PInt 0, processing_paused = True\<rparr> \<and>
   py_lower ''-1'' \<noteq> ''true'' \<and> py_lower ''-1'' \<noteq> ''false'' \<and> py_int_of_str ''-1'' = Some (- 1) \<and>
   submit_decision \<lparr>user_decision = PNone, processing_paused = False\<rparr> (PStr ''-1'')
     = Inr \<lparr>user_decision = PInt (- 1), processing_paused = True\<rparr> \<and>
   py_lower ''yes'' \<noteq> ''true'' \<and> py_lower ''yes'' \<noteq> ''false'' \<and> py_int_of_str ''yes'' = None \<and>
   submit_decision \<lparr>user_decision = PNone, processing_paused = False\<rparr> (PStr ''yes'')
     = Inl ValueError \<and>
   PStr ''1'' \<noteq> PNone \<and>
   submit_decision \<lparr>user_decision = PNone, processing_paused = False\<rparr> (PStr ''1'')
     = Inr \<lparr>user_decision = PInt 1, processing_paused = True\<rparr> \<and>
   normalize_decision (PInt 1) = PInt 1"
proof -
  have a: "py_int_of_str ''-1'' = Some (- 1)"
    by (simp add: py_int_of_str_def int_strip_def int_isspace_def py_int_digits_def is_digit_def
        digits_value_def digit_val_def)
  have b: "py_int_of_str ''yes'' = None"
    by (simp add: py_int_of_str_def int_strip_def int_isspace_def py_int_digits_def is_digit_def)
  have c: "py_lower ''True'' = ''true''" "py_lower ''FALSE'' = ''false''"
    "py_lower ''-1'' \<noteq> ''true''" "py_lower ''-1'' \<noteq> ''false''"
    "py_lower ''yes'' \<noteq> ''true''" "py_lower ''yes'' \<noteq> ''false''"
    by code_simp+
  have e: "submit_decision \<lparr>user_decision = PNone, processing_paused = False\<rparr> (PStr ''1'')
     = Inr \<lparr>user_decision = PInt 1, processing_paused = True\<rparr>"
    by code_simp
  from decision_normalization
         [of "\<lparr>user_decision = PNone, processing_paused = False\<rparr>" 0 "''True''" "''FALSE''"
             "''-1''" "- 1" "''yes''" "PStr ''1''"
             "\<lparr>user_decision = PInt 1, processing_paused = True\<rparr>"]
       a b c e
  show ?thesis by simp
qed

section \<open>Properties of the time estimator\<close>




section \<open>Properties of the writer\<close>

lemma array_text_snoc:
  "xs \<noteq> [] \<Longrightarrow> array_text (xs @ [e]) = butlast (array_text xs) @ '',\<newline>'' @ e @ ''\<newline>]''"
  by (cases xs) (simp_all add: butlast_append)

lemma array_text_shape:
  "xs \<noteq> [] \<Longrightarrow> \<exists>body. array_text xs = CHR ''['' # body @ [CHR ''\<newline>'', CHR '']'']"
  by (cases xs) auto

lemma write_to_json_text_new:
  "file = None \<or> file = Some [] \<Longrightarrow> write_to_json_text e file = Inr (array_text [e])"
  by (auto simp: write_to_json_text_def)

lemma write_to_json_text_shape:
  "write_to_json_text e (Some (CHR ''['' # body @ [c, CHR '']''])) =
     Inr (CHR ''['' # body @ [c] @ (if c \<noteq> CHR ''['' then '',\<newline>'' else ''\<newline>'') @ e @ ''\<newline>]'')"
  by (simp add: write_to_json_text_def nth_append Let_def)

lemma write_to_json_text_append:
  assumes "xs \<noteq> []"
  shows "write_to_json_text e (Some (array_text xs)) = Inr (array_text (xs @ [e]))"
proof -
  from assms obtain body where b: "array_text xs = CHR ''['' # body @ [CHR ''\<newline>'', CHR '']'']"
    using array_text_shape by blast
  show ?thesis
    using assms by (simp add: array_text_snoc b write_to_json_text_shape butlast_append)
qed

lemma write_to_json_text_holds:
  "file_holds xs file \<Longrightarrow> write_to_json_text e file = Inr (array_text (xs @ [e]))"
  by (cases "xs = []") (auto simp: file_holds_def write_to_json_text_new write_to_json_text_append)

lemma file_holds_nonempty: "xs \<noteq> [] \<Longrightarrow> file_holds xs (Some (array_text xs))"
  by (simp add: file_holds_def)

lemma skip_ws_not_ws: "s \<noteq> [] \<Longrightarrow> \<not> json_ws (hd s) \<Longrightarrow> skip_ws (s @ t) = s @ t"
  by (cases s) (simp_all add: skip_ws_def)

lemma skip_ws_newline: "skip_ws (CHR ''\<newline>'' # s) = skip_ws s"
  by (simp add: skip_ws_def json_ws_def)

lemma json_array_items_dumped:
  assumes "\<forall>w \<in> set (v # vs). decodes_dumped dumps raw_decode w"
  shows "json_array_items raw_decode
           (dumps v @ concat (map (\<lambda>y. ''\<newline>,\<newline>'' @ dumps y) vs) @ ''\<newline>]'' @ tail)
         = Inr (v # vs, tail)"
  using assms
proof (induction vs arbitrary: v)
  case Nil
  then have d: "\<And>rest. raw_decode (dumps v @ CHR ''\<newline>'' # rest) = Inr (v, length (dumps v))"
    by (simp add: decodes_dumped_def)
  show ?case
    by (subst json_array_items.simps) (simp add: d skip_ws_newline skip_ws_def json_ws_def)
next
  case (Cons w ws)
  then have d: "\<And>rest. raw_decode (dumps v @ CHR ''\<newline>'' # rest) = Inr (v, length (dumps v))"
    by (simp add: decodes_dumped_def)
  from Cons.prems have w: "dumps w \<noteq> []" "\<not> json_ws (hd (dumps w))"
    by (simp_all add: decodes_dumped_def)
  have ih: "json_array_items raw_decode
           (dumps w @ concat (map (\<lambda>y. ''\<newline>,\<newline>'' @ dumps y) ws) @ ''\<newline>]'' @ tail)
         = Inr (w # ws, tail)"
    using Cons.IH [of w] Cons.prems by simp
  have sk: "skip_ws (CHR ''\<newline>'' # dumps w @ concat (map (\<lambda>y. ''\<newline>,\<newline>'' @ dumps y) ws) @ ''\<newline>]'' @ tail)
      = dumps w @ concat (map (\<lambda>y. ''\<newline>,\<newline>'' @ dumps y) ws) @ ''\<newline>]'' @ tail"
    using w by (simp add: skip_ws_newline skip_ws_not_ws)
  show ?case
    apply (subst json_array_items.simps)
    apply (simp add: d skip_ws_newline)
    apply (simp add: skip_ws_def [of "CHR '','' # _"] json_ws_def)
    using sk ih apply simp
    done
qed

lemma json_load_array_text:
  assumes "\<forall>w \<in> set vs. decodes_dumped dumps raw_decode w" and "vs \<noteq> []"
  shows "json_load_array raw_decode (array_text (map dumps vs)) = Inr vs"
proof -
  from assms(2) obtain v vs' where vs: "vs = v # vs'" by (cases vs) auto
  from assms(1) vs have v: "dumps v \<noteq> []" "\<not> json_ws (hd (dumps v))" "hd (dumps v) \<noteq> CHR '']''"
    by (simp_all add: decodes_dumped_def)
  have items: "json_array_items raw_decode
      (dumps v @ concat (map (\<lambda>y. ''\<newline>,\<newline>'' @ dumps y) vs') @ ''\<newline>]'' @ []) = Inr (v # vs', [])"
    using json_array_items_dumped [of v vs' dumps raw_decode "[]"] assms(1) vs by simp
  have sk: "skip_ws (CHR ''\<newline>'' # dumps v @ concat (map (\<lambda>y. ''\<newline>,\<newline>'' @ dumps y) vs') @ ''\<newline>]'')
      = dumps v @ concat (map (\<lambda>y. ''\<newline>,\<newline>'' @ dumps y) vs') @ ''\<newline>]''"
    using v by (simp add: skip_ws_newline skip_ws_not_ws)
  have st: "\<not> starts_with (CHR '']'') (dumps v @ concat (map (\<lambda>y. ''\<newline>,\<newline>'' @ dumps y) vs') @ ''\<newline>]'')"
    using v by (cases "dumps v") (simp_all add: starts_with_def)
  have top: "skip_ws (CHR ''['' # t) = CHR ''['' # t" for t
    by (simp add: skip_ws_def json_ws_def)
  show ?thesis
    using items sk st
    by (simp add: vs json_load_array_def top Let_def skip_ws_def [of "[]"] comp_def)
qed

lemma write_to_json_holds:
  assumes "file_holds xs (result_file st)" and "result_dir \<noteq> []"
  shows "write_to_json dumps result_dir e st
           = Inr (st\<lparr>result_file := Some (array_text (xs @ [dumps e]))\<rparr>)"
  using assms by (simp add: write_to_json_def write_to_json_text_holds)

lemma write_all_holds:
  assumes "file_holds xs (result_file st)" and "result_dir \<noteq> []" and "es \<noteq> []"
  shows "write_all dumps result_dir es st
           = Inr (st\<lparr>result_file := Some (array_text (xs @ map dumps es))\<rparr>)"
  using assms
proof (induction es arbitrary: xs st)
  case Nil
  then show ?case by simp
next
  case (Cons e es)
  show ?case
  proof (cases "es = []")
    case True
    with Cons.prems show ?thesis by (simp add: write_to_json_holds)
  next
    case False
    have h: "file_holds (xs @ [dumps e])
               (result_file (st\<lparr>result_file := Some (array_text (xs @ [dumps e]))\<rparr>))"
      by (simp add: file_holds_def)
    from Cons.IH [OF h Cons.prems(2) False] Cons.prems show ?thesis
      by (simp add: write_to_json_holds)
  qed
qed

text \<open>
  C3 (writer validity). Starting from a result file that does not exist or is empty,
  after each of the calls of \<open>write_to_json\<close> (the first \<open>n\<close> of them, for every \<open>n\<close>
  from 1 to the number of calls) every call so far has succeeded, and the file parses
  as a JSON array whose elements are the \<open>n\<close> records appended so far, in the order of
  the calls; its length is \<open>n\<close>. With no call at all the file is left as it was.
\<close>

theorem writer_validity:
  assumes start: "result_file st = None \<or> result_file st = Some []"
    and dir: "result_dir \<noteq> []"
    and codec: "\<forall>v \<in> set vs. decodes_dumped dumps raw_decode v"
    and n: "0 < n" "n \<le> length vs"
  shows "\<exists>st' text.
           write_all dumps result_dir (take n vs) st = Inr st' \<and>
           result_file st' = Some text \<and>
           text = array_text (map dumps (take n vs)) \<and>
           json_load_array raw_decode text = Inr (take n vs) \<and>
           length (take n vs) = n"
proof -
  have ne: "take n vs \<noteq> []" using n by auto
  have h: "file_holds [] (result_file st)" using start by (simp add: file_holds_def)
  have c: "\<forall>v \<in> set (take n vs). decodes_dumped dumps raw_decode v"
    using codec by (meson in_set_takeD)
  show ?thesis
    using write_all_holds [OF h dir ne, of dumps] json_load_array_text [OF c ne] n
    by simp
qed

lemma example_codec: "decodes_dumped example_dumps int_literal_decoder 7"
  "decodes_dumped example_dumps int_literal_decoder 42"
  by (simp_all add: decodes_dumped_def example_dumps_def int_literal_decoder_def json_ws_def
      is_digit_def digits_value_def digit_val_def)

theorem writer_validity_witness:
  "(result_file fresh_files = None \<or> result_file fresh_files = Some []) \<and> ''results'' \<noteq> [] \<and>
   decodes_dumped example_dumps int_literal_decoder 7 \<and>
   decodes_dumped example_dumps int_literal_decoder 42 \<and>
   (0::nat) < 2 \<and> (2::nat) \<le> length [7, 42 :: int] \<and>
   (\<exists>st'. write_all example_dumps ''results'' (take 2 [7, 42]) fresh_files = Inr st' \<and>
      result_file st' = Some (array_text [''7'', ''42'']) \<and>
      json_load_array int_literal_decoder (array_text [''7'', ''42'']) = Inr [7, 42])"
proof -
  have a: "result_file fresh_files = None \<or> result_file fresh_files = Some []"
    by (simp add: fresh_files_def)
  have b: "''results'' \<noteq> []" by simp
  have c: "\<forall>v \<in> set [7, 42]. decodes_dumped example_dumps int_literal_decoder v"
    using example_codec by simp
  have d: "(0::nat) < 2" "(2::nat) \<le> length [7, 42 :: int]" by simp_all
  from writer_validity [OF a b c d] a b example_codec d show ?thesis
    by (simp add: example_dumps_def)
qed

section \<open>Properties of the resume state store\<close>

text \<open>
  C10 (append after clearing). \<open>find_resume_point\<close>, finding no resume file and a result
  file that is not empty, overwrites the result file with \<open>[\<close> newline \<open>]\<close>. A call of
  \<open>write_to_json\<close> on that file finds a line feed before the closing bracket, takes the
  array as not empty, and writes a comma before the record: the file then starts with
  \<open>[\<close> newline comma, and it does not parse as JSON.
\<close>

theorem append_after_clearing:
  assumes "resume_file st = None" and "result_file st = Some old" and "old \<noteq> []"
    and "result_dir \<noteq> []" and "json_value_decoder raw_decode"
  shows "find_resume_point log_dir result_dir data st = (0, st\<lparr>result_file := Some ''[\<newline>]''\<rparr>) \<and>
         write_to_json dumps result_dir e (st\<lparr>result_file := Some ''[\<newline>]''\<rparr>)
           = Inr (st\<lparr>result_file := Some (''[\<newline>,\<newline>'' @ dumps e @ ''\<newline>]'')\<rparr>) \<and>
         json_load_array raw_decode (''[\<newline>,\<newline>'' @ dumps e @ ''\<newline>]'') = Inl JSONDecodeError"
proof -
  have rej: "\<exists>err. raw_decode (CHR '','' # s) = Inl err" for s
  proof (cases "raw_decode (CHR '','' # s)")
    case (Inl a)
    then show ?thesis by simp
  next
    case (Inr b)
    then obtain v n where "raw_decode (CHR '','' # s) = Inr (v, n)" by (cases b) auto
    with assms(5) show ?thesis unfolding json_value_decoder_def by fastforce
  qed
  have items: "json_array_items raw_decode (CHR '','' # s) = Inl JSONDecodeError" for s
    using rej [of s] by (subst json_array_items.simps) auto
  have "json_load_array raw_decode (''[\<newline>,\<newline>'' @ dumps e @ ''\<newline>]'') = Inl JSONDecodeError"
    by (simp add: json_load_array_def skip_ws_def json_ws_def starts_with_def items)
  moreover have "write_to_json dumps result_dir e (st\<lparr>result_file := Some ''[\<newline>]''\<rparr>)
           = Inr (st\<lparr>result_file := Some (''[\<newline>,\<newline>'' @ dumps e @ ''\<newline>]'')\<rparr>)"
    using assms(4) by (simp add: write_to_json_def write_to_json_text_def)
  moreover have "find_resume_point log_dir result_dir data st = (0, st\<lparr>result_file := Some ''[\<newline>]''\<rparr>)"
    using assms by (simp add: find_resume_point_def)
  ultimately show ?thesis by simp
qed

lemma int_literal_decoder_json: "json_value_decoder int_literal_decoder"
  unfolding json_value_decoder_def int_literal_decoder_def
  by (auto simp: is_digit_def py_isspace_def Let_def split: list.splits if_splits)

theorem append_after_clearing_witness:
  "resume_file (fresh_files\<lparr>result_file := Some ''[1]''\<rparr>) = None \<and>
   result_file (fresh_files\<lparr>result_file := Some ''[1]''\<rparr>) = Some ''[1]'' \<and> ''[1]'' \<noteq> [] \<and>
   ''results'' \<noteq> [] \<and> json_value_decoder int_literal_decoder \<and>
   find_resume_point ''logs'' ''results'' [] (fresh_files\<lparr>result_file := Some ''[1]''\<rparr>)
     = (0, fresh_files\<lparr>result_file := Some ''[\<newline>]''\<rparr>) \<and>
   write_to_json example_dumps ''results'' 7 (fresh_files\<lparr>result_file := Some ''[\<newline>]''\<rparr>)
     = Inr (fresh_files\<lparr>result_file := Some ''[\<newline>,\<newline>7\<newline>]''\<rparr>) \<and>
   json_load_array int_literal_decoder ''[\<newline>,\<newline>7\<newline>]'' = Inl JSONDecodeError"
proof -
  have a: "resume_file (fresh_files\<lparr>result_file := Some ''[1]''\<rparr>) = None"
    "result_file (fresh_files\<lparr>result_file := Some ''[1]''\<rparr>) = Some ''[1]''"
    "''[1]'' \<noteq> []" "''results'' \<noteq> []"
    by (simp_all add: fresh_files_def)
  from append_after_clearing [OF a int_literal_decoder_json, of "''logs''" "[]" example_dumps 7]
    a int_literal_decoder_json
  show ?thesis by (simp add: example_dumps_def)
qed

lemma save_resume_point_returns:
  "total_n \<noteq> 0 \<Longrightarrow> \<exists>st'. save_resume_point m e index total_n fes st = Inr st'"
  by (simp add: save_resume_point_def Let_def)

text \<open>
  What \<open>is_model_completed\<close> reports for the state that \<open>save_resume_point\<close> has
  written: completed exactly when \<open>index >= total\<close> and no entry of the stored ledger
  has a \<open>retry_count\<close> below the fixed bound 3 of \<open>is_model_completed\<close>; a missing
  \<open>retry_count\<close> is read as 0.
\<close>

lemma is_model_completed_after_save:
  assumes "save_resume_point model_name e index total_n failed st = Inr st'"
    and "log_dir \<noteq> []"
  shows "fst (is_model_completed log_dir st') \<longleftrightarrow>
           (index \<ge> total_n \<and> (\<forall>fe \<in> set (get_failed_entries st'). \<not> get_retry_count fe < 3))"
proof -
  from assms(1) obtain rd where rd: "resume_file st' = Some rd" "rd_completed rd = Some (index \<ge> total_n)"
    by (auto simp: save_resume_point_def Let_def split: if_splits)
  show ?thesis
    using assms(2) rd
    by (auto simp: is_model_completed_def get_failed_entries_def Let_def filter_empty_conv
        not_less)
qed

text \<open>
  C5 (completed-flag invariant) does not hold on the code when \<open>max_retries\<close> is not 3.
  The driver runs with \<open>--max-retries 2\<close> on three records, of which the second fails
  on every call. It gives that record up after two failures, and the last
  \<open>save_resume_point\<close> persists \<open>index = total = 3\<close> with the completed flag set and a
  ledger whose only entry has \<open>retry_count = 2\<close>: no entry is below \<open>max_retries\<close>.
  \<open>is_model_completed\<close> compares with its own constant 3, counts the entry as one that
  can be retried, and reports the job as not completed.
\<close>

theorem completed_flag_ignores_max_retries:
  "(case process_model_streaming fails_on_one example_out_dumps example_cfg_two_retries
           example_data fresh_files of
      Inl err \<Rightarrow> False
    | Inr (st, completed) \<Rightarrow>
        map_option rd_index (resume_file st) = Some (Some 3) \<and>
        map_option rd_total (resume_file st) = Some (Some 3) \<and>
        map_option rd_completed (resume_file st) = Some (Some True) \<and>
        map get_retry_count (get_failed_entries st) = [2] \<and>
        list_all (\<lambda>fe. \<not> get_retry_count fe < max_retries_cfg example_cfg_two_retries)
          (get_failed_entries st) \<and>
        \<not> fst (is_model_completed (log_dir_cfg example_cfg_two_retries) st) \<and>
        retryable_entries (snd (is_model_completed (log_dir_cfg example_cfg_two_retries) st)) = 1 \<and>
        \<not> completed)"
  by code_simp

section \<open>Properties of the streaming reader\<close>











section \<open>Properties of the batch driver\<close>

lemma interact_with_llm_files:
  assumes "interact_with_llm llm cfg e st = (st1, r)"
  shows "result_file st1 = result_file st \<and> resume_file st1 = resume_file st \<and>
         retry_files st1 = retry_files st"
  using assms by (auto simp: interact_with_llm_def Let_def split: if_splits)

lemma interact_with_llm_key:
  assumes "interact_with_llm llm cfg e st = (st1, Inr new_entry)"
  shows "out_key new_entry = entry_ident e"
  using assms
  by (auto simp: interact_with_llm_def Let_def out_key_def entry_ident_def empty_response_entry_def
      split: if_splits sum.splits)

lemma add_failed_entry_files:
  "result_file (add_failed_entry m e err st) = result_file st"
  "retry_files (add_failed_entry m e err st) = retry_files st"
  "llm_calls (add_failed_entry m e err st) = llm_calls st"
  by (simp_all add: add_failed_entry_def Let_def split: option.splits)

lemma add_failed_entry_consistent:
  "resume_consistent total_n st \<Longrightarrow> resume_consistent total_n (add_failed_entry m e err st)"
  by (auto simp: add_failed_entry_def resume_consistent_def Let_def split: option.splits)

lemma process_entry_attempt_cases:
  assumes holds: "file_holds xs (result_file st)"
    and dir: "result_dir_cfg cfg \<noteq> []"
    and total: "total_entries \<noteq> 0"
  shows "(\<exists>st1 err. process_entry_attempt llm dumps cfg e idx total_entries st = (st1, Some err) \<and>
            result_file st1 = result_file st \<and> resume_file st1 = resume_file st) \<or>
         (\<exists>st1 new_entry. process_entry_attempt llm dumps cfg e idx total_entries st = (st1, None) \<and>
            result_file st1 = Some (array_text (xs @ [dumps new_entry])) \<and>
            out_key new_entry = entry_ident e \<and>
            resume_consistent total_entries st1 \<and>
            (\<exists>rd. resume_file st1 = Some rd \<and> rd_index rd = Some (idx + 1)))"
proof -
  obtain st1 r where i: "interact_with_llm llm cfg e st = (st1, r)"
    by (cases "interact_with_llm llm cfg e st") auto
  note f = interact_with_llm_files [OF i]
  show ?thesis
  proof (cases r)
    case (Inl err)
    with i f show ?thesis by (simp add: process_entry_attempt_def)
  next
    case (Inr new_entry)
    from holds f have h1: "file_holds xs (result_file st1)" by simp
    have w: "write_to_json dumps (result_dir_cfg cfg) new_entry st1
           = Inr (st1\<lparr>result_file := Some (array_text (xs @ [dumps new_entry]))\<rparr>)"
      by (rule write_to_json_holds [OF h1 dir])
    from i Inr have k: "out_key new_entry = entry_ident e"
      using interact_with_llm_key by blast
    show ?thesis
      using i Inr w k total
      by (auto simp: process_entry_attempt_def save_resume_point_def resume_consistent_def Let_def)
  qed
qed

lemma handle_entry_error_holds:
  assumes holds: "file_holds xs (result_file st)"
    and dir: "result_dir_cfg cfg \<noteq> []"
  shows "\<exists>st2. handle_entry_error dumps cfg e err rc st = Inr st2 \<and>
           resume_file st2 = resume_file (add_failed_entry (model_name_cfg cfg) e err st) \<and>
           result_file st2 =
             (if rc \<ge> max_retries_cfg cfg
              then Some (array_text (xs @ [dumps (empty_response_entry e)]))
              else result_file st)"
proof -
  have h: "file_holds xs (result_file (add_failed_entry (model_name_cfg cfg) e err st))"
    using holds by (simp add: add_failed_entry_files)
  show ?thesis
    using write_to_json_holds [OF h dir, of dumps "empty_response_entry e"]
    by (simp add: handle_entry_error_def Let_def add_failed_entry_files)
qed

lemma empty_response_entry_key: "out_key (empty_response_entry e) = entry_ident e"
  by (simp add: out_key_def entry_ident_def empty_response_entry_def)

lemma process_entry_loop_appends:
  "file_holds xs (result_file st) \<Longrightarrow> resume_consistent total_entries st \<Longrightarrow>
   result_dir_cfg cfg \<noteq> [] \<Longrightarrow> total_entries \<noteq> 0 \<Longrightarrow> retry_count \<le> max_retries_cfg cfg \<Longrightarrow>
   \<exists>st' new_entry.
      process_entry_loop llm dumps cfg e idx total_entries retry_count st = Inr (st', True) \<and>
      result_file st' = Some (array_text (xs @ [dumps new_entry])) \<and>
      out_key new_entry = entry_ident e \<and>
      resume_consistent total_entries st'"
proof (induction llm dumps cfg e idx total_entries retry_count st
    rule: process_entry_loop.induct)
  case (1 llm dumps cfg e idx total_entries retry_count st)
  note holds = "1.prems"(1) and cons = "1.prems"(2) and dir = "1.prems"(3)
    and total = "1.prems"(4) and rc = "1.prems"(5)
  from process_entry_attempt_cases [OF holds dir total, of llm dumps e idx]
  show ?case
  proof (elim disjE exE conjE)
    fix st1 new_entry
    assume "process_entry_attempt llm dumps cfg e idx total_entries st = (st1, None)"
      "result_file st1 = Some (array_text (xs @ [dumps new_entry]))"
      "out_key new_entry = entry_ident e" "resume_consistent total_entries st1"
    then show ?thesis
      using rc by (subst process_entry_loop.simps) auto
  next
    fix st1 err
    assume a: "process_entry_attempt llm dumps cfg e idx total_entries st = (st1, Some err)"
      and r1: "result_file st1 = result_file st" and r2: "resume_file st1 = resume_file st"
    from holds r1 have h1: "file_holds xs (result_file st1)" by simp
    from cons r2 have c1: "resume_consistent total_entries st1"
      by (simp add: resume_consistent_def)
    from handle_entry_error_holds [OF h1 dir, of dumps e err "retry_count + 1"]
    obtain st2 where
      h: "handle_entry_error dumps cfg e err (retry_count + 1) st1 = Inr st2"
      and rs: "resume_file st2 = resume_file (add_failed_entry (model_name_cfg cfg) e err st1)"
      and rf: "result_file st2 =
             (if retry_count + 1 \<ge> max_retries_cfg cfg
              then Some (array_text (xs @ [dumps (empty_response_entry e)]))
              else result_file st1)"
      by blast
    have c2: "resume_consistent total_entries st2"
      using add_failed_entry_consistent [OF c1, of "model_name_cfg cfg" e err] rs
      by (simp add: resume_consistent_def)
    show ?thesis
    proof (cases "retry_count + 1 \<ge> max_retries_cfg cfg")
      case True
      then show ?thesis
        using rc a h rf c2 empty_response_entry_key
        by (subst process_entry_loop.simps) auto
    next
      case False
      from rf False h1 have h2: "file_holds xs (result_file st2)" by simp
      from False have rc2: "retry_count + 1 \<le> max_retries_cfg cfg" by simp
      from "1.IH" [OF rc a [symmetric] refl h _ h2 c2 dir total rc2] False
      show ?thesis
        using rc a h by (subst process_entry_loop.simps) auto
    qed
  qed
qed

lemma process_entries_append:
  "process_entries llm dumps cfg total_entries start_idx (xs @ ys) st =
     (case process_entries llm dumps cfg total_entries start_idx xs st of
        Inl err \<Rightarrow> Inl err
      | Inr st' \<Rightarrow> process_entries llm dumps cfg total_entries start_idx ys st')"
proof (induction xs arbitrary: st)
  case Nil
  then show ?case by simp
next
  case (Cons x xs)
  obtain idx e where x: "x = (idx, e)" by (cases x)
  show ?case
    by (simp add: x Cons.IH split: sum.splits prod.splits)
qed

lemma process_entries_skip:
  "int (m + length es) \<le> start_idx \<Longrightarrow>
   process_entries llm dumps cfg total_entries start_idx (enumerate m es) st = Inr st"
  by (induction es arbitrary: m) auto

lemma process_entries_appends:
  assumes dir: "result_dir_cfg cfg \<noteq> []" and total: "total_entries \<noteq> 0"
    and mr: "0 \<le> max_retries_cfg cfg"
  shows "file_holds (map dumps outs) (result_file st) \<Longrightarrow> resume_consistent total_entries st \<Longrightarrow>
         start_idx \<le> int m \<Longrightarrow>
         \<exists>st' new_entries.
           process_entries llm dumps cfg total_entries start_idx (enumerate m es) st = Inr st' \<and>
           file_holds (map dumps (outs @ new_entries)) (result_file st') \<and>
           map out_key new_entries = map entry_ident es \<and>
           resume_consistent total_entries st'"
proof (induction es arbitrary: m st outs)
  case Nil
  then show ?case by simp
next
  case (Cons e es)
  from process_entry_loop_appends [OF Cons.prems(1) Cons.prems(2) dir total, of 0 llm dumps e "int m"] mr
  obtain st1 new_entry where
    p: "process_entry llm dumps cfg e (int m) total_entries st = Inr (st1, True)"
    and f: "result_file st1 = Some (array_text (map dumps outs @ [dumps new_entry]))"
    and k: "out_key new_entry = entry_ident e"
    and c: "resume_consistent total_entries st1"
    by (auto simp: process_entry_def)
  from f have h: "file_holds (map dumps (outs @ [new_entry])) (result_file st1)"
    by (simp add: file_holds_def)
  from Cons.prems(3) have s: "start_idx \<le> int (Suc m)" by simp
  from Cons.IH [OF h c s]
  obtain st' new_entries where
    r: "process_entries llm dumps cfg total_entries start_idx (enumerate (Suc m) es) st1 = Inr st'"
    and h': "file_holds (map dumps ((outs @ [new_entry]) @ new_entries)) (result_file st')"
    and k': "map out_key new_entries = map entry_ident es"
    and c': "resume_consistent total_entries st'"
    by blast
  show ?case
    using Cons.prems(3) p r h' k k' c'
    by (intro exI [of _ st'] exI [of _ "new_entry # new_entries"]) simp
qed

lemma is_model_completed_no_resume:
  "resume_file st = None \<Longrightarrow> fst (is_model_completed log_dir st) = False"
  by (simp add: is_model_completed_def Let_def)

lemma is_model_completed_unfinished:
  assumes "resume_file st = Some rd" and "rd_completed rd = Some False"
  shows "fst (is_model_completed log_dir st) = False"
  using assms by (simp add: is_model_completed_def Let_def)

lemma take_enumerate: "take k (enumerate m xs) = enumerate m (take k xs)"
  by (induction xs arbitrary: k m) (auto simp: take_Cons split: nat.splits)

lemma run_from_start:
  assumes dir: "result_dir_cfg cfg \<noteq> []" and mr: "0 \<le> max_retries_cfg cfg"
    and r0: "result_file st0 = None" and s0: "resume_file st0 = None"
    and n: "0 < n" "n \<le> length data"
  shows "\<exists>st b outs.
           process_model_streaming_upto n llm dumps cfg data st0 = Inr (st, b) \<and>
           result_file st = Some (array_text (map dumps outs)) \<and>
           map out_key outs = map entry_ident (take n data) \<and>
           resume_consistent (int (length data)) st"
proof -
  have total: "int (length data) \<noteq> 0" using n by auto
  have h0: "file_holds (map dumps []) (result_file st0)" by (simp add: file_holds_def r0)
  have c0: "resume_consistent (int (length data)) st0" by (simp add: resume_consistent_def s0)
  from process_entries_appends [OF dir total mr h0 c0, of 0 0 llm "take n data"]
  obtain st outs where
    p: "process_entries llm dumps cfg (int (length data)) 0 (enumerate 0 (take n data)) st0 = Inr st"
    and h: "file_holds (map dumps outs) (result_file st)"
    and k: "map out_key outs = map entry_ident (take n data)"
    and c: "resume_consistent (int (length data)) st"
    by auto
  from k n have "outs \<noteq> []" by (cases outs) auto
  with h have f: "result_file st = Some (array_text (map dumps outs))"
    by (simp add: file_holds_def)
  have fr: "find_resume_point (log_dir_cfg cfg) (result_dir_cfg cfg) data st0 = (0, st0)"
    by (simp add: find_resume_point_def r0 s0)
  show ?thesis
    using p f k c fr is_model_completed_no_resume [OF s0]
    by (auto simp: process_model_streaming_upto_def take_enumerate Let_def)
qed

text \<open>
  When the resume file holds index \<open>k\<close> at the moment of the kill, the second run skips
  \<open>k\<close> records and appends one record for each of the others: the result file holds
  the keys of the input records in the input's order, as after a run that is not
  interrupted. The calls of the LLM may succeed or fail in any way; \<open>max_retries\<close> is
  not negative.
\<close>

lemma resume_after_saved_index:
  assumes k: "0 < k" "k < length data"
    and mr: "0 \<le> max_retries_cfg cfg"
    and ldir: "log_dir_cfg cfg \<noteq> []" and dir: "result_dir_cfg cfg \<noteq> []"
    and r0: "result_file st0 = None" and s0: "resume_file st0 = None"
    and killed: "process_model_streaming_upto k llm1 dumps cfg data st0 = Inr (st_k, b_k)"
    and saved: "\<exists>rd. resume_file st_k = Some rd \<and> rd_index rd = Some (int k)"
  shows "\<exists>st_r b_r outs_r st_u b_u outs_u.
           process_model_streaming llm2 dumps cfg data st_k = Inr (st_r, b_r) \<and>
           result_file st_r = Some (array_text (map dumps outs_r)) \<and>
           map out_key outs_r = map entry_ident data \<and>
           process_model_streaming llm3 dumps cfg data st0 = Inr (st_u, b_u) \<and>
           result_file st_u = Some (array_text (map dumps outs_u)) \<and>
           map out_key outs_u = map entry_ident data \<and>
           length outs_r = length data \<and> length outs_u = length data"
proof -
  have total: "int (length data) \<noteq> 0" using k by auto
  \<comment> \<open>the run that is not interrupted\<close>
  have n1: "0 < length data" "length data \<le> length data" using k by auto
  from run_from_start [OF dir mr r0 s0 n1, of llm3 dumps]
  obtain st_u b_u outs_u where
    u: "process_model_streaming llm3 dumps cfg data st0 = Inr (st_u, b_u)"
    and fu: "result_file st_u = Some (array_text (map dumps outs_u))"
    and ku: "map out_key outs_u = map entry_ident data"
    by (auto simp: process_model_streaming_def)
  \<comment> \<open>the state at the kill\<close>
  have n2: "0 < k" "k \<le> length data" using k by simp_all
  from run_from_start [OF dir mr r0 s0 n2, of llm1 dumps] killed
  obtain outs_k where
    fk: "result_file st_k = Some (array_text (map dumps outs_k))"
    and kk: "map out_key outs_k = map entry_ident (take k data)"
    and ck: "resume_consistent (int (length data)) st_k"
    by auto
  from kk k have nek: "outs_k \<noteq> []" by (cases outs_k) auto
  from saved obtain rd where rd: "resume_file st_k = Some rd" "rd_index rd = Some (int k)"
    by blast
  with ck k have "rd_completed rd = Some False"
    by (simp add: resume_consistent_def)
  with rd have nc: "fst (is_model_completed (log_dir_cfg cfg) st_k) = False"
    using is_model_completed_unfinished by blast
  have fr: "find_resume_point (log_dir_cfg cfg) (result_dir_cfg cfg) data st_k = (int k, st_k)"
    using rd k ldir by (simp add: find_resume_point_def)
  \<comment> \<open>the second run skips the first \<open>k\<close> records and appends the others\<close>
  have split: "enumerate 0 data = enumerate 0 (take k data) @ enumerate k (drop k data)"
    using enumerate_append_eq [of 0 "take k data" "drop k data"] k by (simp add: min_def)
  have skip: "process_entries llm2 dumps cfg (int (length data)) (int k)
                (enumerate 0 (take k data)) st_k = Inr st_k"
    using k by (intro process_entries_skip) simp
  from fk nek have hk: "file_holds (map dumps outs_k) (result_file st_k)"
    by (simp add: file_holds_def)
  from process_entries_appends [OF dir total mr hk ck, of "int k" k llm2 "drop k data"]
  obtain st_r news where
    p: "process_entries llm2 dumps cfg (int (length data)) (int k)
          (enumerate k (drop k data)) st_k = Inr st_r"
    and hr: "file_holds (map dumps (outs_k @ news)) (result_file st_r)"
    and kr: "map out_key news = map entry_ident (drop k data)"
    by auto
  from hr nek have fr2: "result_file st_r = Some (array_text (map dumps (outs_k @ news)))"
    by (simp add: file_holds_def)
  have "map entry_ident data = map entry_ident (take k data) @ map entry_ident (drop k data)"
    by (metis append_take_drop_id map_append)
  then have keys: "map out_key (outs_k @ news) = map entry_ident data"
    using kk kr by simp
  have run: "process_model_streaming llm2 dumps cfg data st_k
               = Inr (st_r, fst (is_model_completed (log_dir_cfg cfg) st_r))"
    using nc fr skip p
    by (simp add: process_model_streaming_def process_model_streaming_upto_def Let_def split
        process_entries_append)
  have lr: "length (outs_k @ news) = length data"
    using keys by (metis length_map)
  have lu: "length outs_u = length data"
    using ku by (metis length_map)
  show ?thesis
    using run fr2 keys u fu ku lr lu by blast
qed

lemma process_entry_attempt_fails:
  assumes "llm (llm_calls st) e = Inl err" and "retry_files st (entry_ident e) = None"
  shows "process_entry_attempt llm dumps cfg e idx total_entries st
           = (st\<lparr>llm_calls := llm_calls st + 1\<rparr>, Some err)"
  using assms by (simp add: process_entry_attempt_def interact_with_llm_def Let_def)

lemma process_entry_loop_always_fails:
  "\<forall>n. llm n e = Inl err \<Longrightarrow> result_dir_cfg cfg \<noteq> [] \<Longrightarrow> file_holds xs (result_file st) \<Longrightarrow>
   retry_files st (entry_ident e) = None \<Longrightarrow> retry_count \<le> max_retries_cfg cfg \<Longrightarrow>
   \<exists>st'. process_entry_loop llm dumps cfg e idx total_entries retry_count st = Inr (st', True) \<and>
     llm_calls st' = llm_calls st + max 1 (nat (max_retries_cfg cfg - retry_count)) \<and>
     result_file st' = Some (array_text (xs @ [dumps (empty_response_entry e)]))"
proof (induction llm dumps cfg e idx total_entries retry_count st
    rule: process_entry_loop.induct)
  case (1 llm dumps cfg e idx total_entries retry_count st)
  note fails = "1.prems"(1) and dir = "1.prems"(2) and holds = "1.prems"(3)
    and noretry = "1.prems"(4) and rc = "1.prems"(5)
  let ?st1 = "st\<lparr>llm_calls := llm_calls st + 1\<rparr>"
  have a: "process_entry_attempt llm dumps cfg e idx total_entries st = (?st1, Some err)"
    using fails noretry by (simp add: process_entry_attempt_fails)
  have h1: "file_holds xs (result_file ?st1)" using holds by simp
  from handle_entry_error_holds [OF h1 dir, of dumps e err "retry_count + 1"]
  obtain st2 where
    h: "handle_entry_error dumps cfg e err (retry_count + 1) ?st1 = Inr st2"
    and rf: "result_file st2 =
             (if retry_count + 1 \<ge> max_retries_cfg cfg
              then Some (array_text (xs @ [dumps (empty_response_entry e)]))
              else result_file ?st1)"
    by blast
  have calls2: "llm_calls st2 = llm_calls st + 1"
    using h
    by (auto simp: handle_entry_error_def write_to_json_def Let_def add_failed_entry_files
        split: if_splits sum.splits)
  have retry2: "retry_files st2 = retry_files st"
    using h
    by (auto simp: handle_entry_error_def write_to_json_def Let_def add_failed_entry_files
        split: if_splits sum.splits)
  show ?case
  proof (cases "retry_count + 1 \<ge> max_retries_cfg cfg")
    case True
    then have "max 1 (nat (max_retries_cfg cfg - retry_count)) = 1" by auto
    then show ?thesis
      using rc a h rf calls2 True by (subst process_entry_loop.simps) simp
  next
    case False
    from rf False holds have h2: "file_holds xs (result_file st2)" by simp
    from noretry retry2 have n2: "retry_files st2 (entry_ident e) = None" by simp
    from False have rc2: "retry_count + 1 \<le> max_retries_cfg cfg" by simp
    from "1.IH" [OF rc a [symmetric] refl h _ fails dir h2 n2 rc2] False
    obtain st' where
      l: "process_entry_loop llm dumps cfg e idx total_entries (retry_count + 1) st2 = Inr (st', True)"
      and c: "llm_calls st' = llm_calls st2 + max 1 (nat (max_retries_cfg cfg - (retry_count + 1)))"
      and r: "result_file st' = Some (array_text (xs @ [dumps (empty_response_entry e)]))"
      by auto
    from False have "1 + max 1 (nat (max_retries_cfg cfg - (retry_count + 1)))
                      = max 1 (nat (max_retries_cfg cfg - retry_count))"
      by auto
    with c calls2 have "llm_calls st' = llm_calls st + max 1 (nat (max_retries_cfg cfg - retry_count))"
      by simp
    then show ?thesis
      using rc a h l r False by (subst process_entry_loop.simps) simp
  qed
qed

text \<open>
  C6 (retry bound within one run). The call of the LLM raises every time it is made for
  a record. With \<open>max_retries = 3\<close> the driver makes three attempts, which is at most
  \<open>max_retries + 1\<close>; it then appends exactly one record to the result file, the one
  with the empty response and every numeric field 0, and returns normally, so that the
  loop over the records goes on with the next record. The result file is one that the
  writer accepts (absent, empty, or written by it), and the record has no retry file.
\<close>

theorem retry_bound:
  assumes fails: "\<forall>n. llm n e = Inl err"
    and mr: "max_retries_cfg cfg = 3"
    and dir: "result_dir_cfg cfg \<noteq> []"
    and holds: "file_holds xs (result_file st)"
    and noretry: "retry_files st (entry_ident e) = None"
  shows "\<exists>st'.
           process_entry llm dumps cfg e (int idx) total_entries st = Inr (st', True) \<and>
           llm_calls st' = llm_calls st + 3 \<and>
           llm_calls st' - llm_calls st \<le> nat (max_retries_cfg cfg + 1) \<and>
           result_file st' = Some (array_text (xs @ [dumps (empty_response_entry e)])) \<and>
           response (empty_response_entry e) = [] \<and>
           total_duration (empty_response_entry e) = Int_seconds 0 \<and>
           load_duration (empty_response_entry e) = Int_seconds 0 \<and>
           prompt_eval_count (empty_response_entry e) = 0 \<and>
           prompt_eval_duration (empty_response_entry e) = Int_seconds 0 \<and>
           eval_count (empty_response_entry e) = 0 \<and>
           eval_duration (empty_response_entry e) = Int_seconds 0 \<and>
           out_key (empty_response_entry e) = entry_ident e \<and>
           process_entries llm dumps cfg total_entries (int idx) ((idx, e) # rest) st
             = process_entries llm dumps cfg total_entries (int idx) rest st'"
proof -
  have rc: "(0::int) \<le> max_retries_cfg cfg" using mr by simp
  from process_entry_loop_always_fails
         [where llm = llm and e = e and err = err and cfg = cfg and xs = xs and st = st
            and retry_count = 0 and dumps = dumps and idx = "int idx"
            and total_entries = total_entries]
       fails dir holds noretry rc
  obtain st' where
    p: "process_entry llm dumps cfg e (int idx) total_entries st = Inr (st', True)"
    and c: "llm_calls st' = llm_calls st + 3"
    and r: "result_file st' = Some (array_text (xs @ [dumps (empty_response_entry e)]))"
    using mr by (auto simp: process_entry_def)
  show ?thesis
    using p c r mr
    by (simp add: empty_response_entry_key) (simp add: empty_response_entry_def)
qed

theorem retry_bound_witness:
  "(\<forall>n. fails_on_one n (example_entry 1) = Inl ConnectionError) \<and>
   max_retries_cfg example_cfg = 3 \<and> result_dir_cfg example_cfg \<noteq> [] \<and>
   file_holds [] (result_file fresh_files) \<and>
   retry_files fresh_files (entry_ident (example_entry 1)) = None \<and>
   (\<exists>st'. process_entry fails_on_one example_out_dumps example_cfg (example_entry 1) 1 2 fresh_files
            = Inr (st', True) \<and>
      llm_calls st' = 3 \<and>
      result_file st' = Some (array_text [example_out_dumps (empty_response_entry (example_entry 1))]))"
proof -
  have a: "\<forall>n. fails_on_one n (example_entry 1) = Inl ConnectionError"
    by (simp add: fails_on_one_def example_entry_def)
  have b: "max_retries_cfg example_cfg = 3" "result_dir_cfg example_cfg \<noteq> []"
    by (simp_all add: example_cfg_def)
  have c: "file_holds [] (result_file fresh_files)"
    "retry_files fresh_files (entry_ident (example_entry 1)) = None"
    by (simp_all add: file_holds_def fresh_files_def)
  from retry_bound
         [where llm = fails_on_one and e = "example_entry 1" and err = ConnectionError
            and cfg = example_cfg and xs = "[]" and st = fresh_files
            and dumps = example_out_dumps and idx = 1 and total_entries = 2 and rest = "[]"]
       a b c
  show ?thesis by (auto simp: fresh_files_def)
qed

text \<open>
  C7 (no retry after exhaustion across runs) does not hold on the code. The dataset has
  two records; the LLM answers for the first and fails on every call for the second;
  \<open>max_retries\<close> is 3. The first run makes four calls, writes the answer of the first
  record and the empty response of the second, leaves the ledger entry of the second
  record at \<open>retry_count = 3\<close>, and leaves the resume index at 1, because the resume
  point is saved only after a successful attempt. The second run starts at index 1,
  calls the LLM three more times for the second record, and appends its empty response
  again: the result file holds two records with the key of the second record.
\<close>

theorem exhausted_record_is_retried:
  "(case process_model_streaming fails_on_one example_out_dumps example_cfg
           [example_entry 0, example_entry 1] fresh_files of
      Inl err \<Rightarrow> False
    | Inr (st1, completed1) \<Rightarrow>
        llm_calls st1 = 4 \<and> \<not> completed1 \<and>
        map_option rd_index (resume_file st1) = Some (Some 1) \<and>
        map fe_retry_count (get_failed_entries st1) = [Some 3] \<and>
        map fe_id (get_failed_entries st1) = [PInt 1] \<and>
        result_file st1 = Some (array_text
          [example_out_dumps
             \<lparr>out_id = PInt 0, out_sub_id = PInt 0, out_code_id = PInt 0, response = ''ok'',
              total_duration = Float_seconds_of_ns 0, load_duration = Float_seconds_of_ns 0,
              prompt_eval_count = 0, prompt_eval_duration = Float_seconds_of_ns 0,
              eval_count = 0, eval_duration = Float_seconds_of_ns 0\<rparr>,
           example_out_dumps (empty_response_entry (example_entry 1))]) \<and>
        (case process_model_streaming fails_on_one example_out_dumps example_cfg
                [example_entry 0, example_entry 1] st1 of
           Inl err \<Rightarrow> False
         | Inr (st2, completed2) \<Rightarrow>
             llm_calls st2 = 7 \<and>
             map fe_retry_count (get_failed_entries st2) = [Some 6] \<and>
             result_file st2 = Some (array_text
               [example_out_dumps
                  \<lparr>out_id = PInt 0, out_sub_id = PInt 0, out_code_id = PInt 0, response = ''ok'',
                   total_duration = Float_seconds_of_ns 0, load_duration = Float_seconds_of_ns 0,
                   prompt_eval_count = 0, prompt_eval_duration = Float_seconds_of_ns 0,
                   eval_count = 0, eval_duration = Float_seconds_of_ns 0\<rparr>,
                example_out_dumps (empty_response_entry (example_entry 1)),
                example_out_dumps (empty_response_entry (example_entry 1))])))"
  by code_simp

text \<open>
  C1 (resume idempotence) does not hold on the code. The dataset has three records; the
  LLM fails on every call for the second and answers for the others; \<open>max_retries\<close> is
  3. The process is killed after the second record has been processed: its empty
  response is in the result file, and the resume index is still 1, because the driver
  saves the resume point only after a successful attempt and not when it gives a
  record up. The second run starts at index 1, processes the second record again and
  appends its empty response a second time: the result file holds four records, with
  the key of the second record twice, where a run that is not interrupted writes
  three.
\<close>

theorem resume_repeats_given_up_record:
  "(case process_model_streaming_upto 2 fails_on_one example_out_dumps example_cfg example_data
           fresh_files of
      Inl err \<Rightarrow> False
    | Inr (st_k, completed_k) \<Rightarrow>
        result_file st_k = Some (array_text (map example_out_dumps
          [example_answer 0, empty_response_entry (example_entry 1)])) \<and>
        map_option rd_index (resume_file st_k) = Some (Some 1) \<and>
        (case process_model_streaming fails_on_one example_out_dumps example_cfg example_data
                st_k of
           Inl err \<Rightarrow> False
         | Inr (st_r, completed_r) \<Rightarrow>
             llm_calls st_r = 8 \<and>
             result_file st_r = Some (array_text (map example_out_dumps
               [example_answer 0, empty_response_entry (example_entry 1),
                empty_response_entry (example_entry 1), example_answer 2])))) \<and>
   (case process_model_streaming fails_on_one example_out_dumps example_cfg example_data
           fresh_files of
      Inl err \<Rightarrow> False
    | Inr (st_u, completed_u) \<Rightarrow>
        llm_calls st_u = 5 \<and>
        result_file st_u = Some (array_text (map example_out_dumps
          [example_answer 0, empty_response_entry (example_entry 1), example_answer 2]))) \<and>
   map out_key [example_answer 0, empty_response_entry (example_entry 1),
                empty_response_entry (example_entry 1), example_answer 2]
     = map entry_ident [example_entry 0, example_entry 1, example_entry 1, example_entry 2] \<and>
   map entry_ident example_data
     = [(PInt 0, PInt 0, PInt 0), (PInt 1, PInt 0, PInt 0), (PInt 2, PInt 0, PInt 0)]"
  by code_simp

end
